theory Spec2Isabelle
  imports Main
begin

section \<open>The RudderStack tracker: data model\<close>

text \<open>
  The development embeds the class \<open>RudderStackTracker\<close> and the module constants around
  it. The class mutates three kinds of state: its own fields and statics, the registries of
  the browser it writes to (event listeners, the two history functions, connected mutation
  observers, pending timers), and the analytics client it calls. All three are fields of one
  record, \<open>world\<close>, which every method takes and returns. What the code only reads (the
  document, the environment variables, the built-in functions of the runtime) is passed as
  an argument. Console output has no effect on any of this and is left out.
\<close>

subsection \<open>Values and errors\<close>

text \<open>The exceptions the runtime can raise inside the methods.\<close>

datatype error = TypeError | SyntaxError

text \<open>
  A JavaScript value as a property of an event payload: \<open>null\<close>, a string, or any other
  value, which the tracker only passes on.
\<close>

datatype 'a jsval = JSNull | JSString string | JSOther 'a

text \<open>
  \<open>process.env\<close>, with the allowlist as the module constant \<open>trackedPages\<close> holds it (the
  variable \<open>RUDDERSTACK_TRACKED_PAGES\<close> split at commas, each entry trimmed; the empty
  list when the variable is not set).
\<close>

record env =
  RUDDERSTACK_KEY :: "string option"
  RUDDERSTACK_URL :: "string option"
  RUDDERSTACK_GAME_ID :: "string option"
  RUDDERSTACK_PROJECT_ID :: "string option"
  trackedPages :: "string list"

text \<open>Truthiness of a value that is a string or \<open>undefined\<close>, and \<open>v || d\<close> on it.\<close>

definition truthy :: "string option \<Rightarrow> bool" where
  "truthy v = (case v of None \<Rightarrow> False | Some s \<Rightarrow> s \<noteq> [])"

definition or_default :: "string option \<Rightarrow> string \<Rightarrow> string" where
  "or_default v d = (if truthy v then the v else d)"

definition or_null :: "string option \<Rightarrow> 'a jsval" where
  "or_null v = (if truthy v then JSString (the v) else JSNull)"

definition common_properties :: "env \<Rightarrow> (string \<rightharpoonup> 'a jsval)" where
  "common_properties ev =
     [''game_id'' \<mapsto> or_null (RUDDERSTACK_GAME_ID ev),
      ''project_id'' \<mapsto> or_null (RUDDERSTACK_PROJECT_ID ev)]"

subsection \<open>The analytics client\<close>

text \<open>
  The client is the external SDK. A tracker's \<open>analyticsInstance\<close> is represented by the
  calls it has received, oldest first.
\<close>

datatype 'a call =
    Load string string
  | Ready
  | Page "string \<rightharpoonup> 'a jsval"
  | Track string "string \<rightharpoonup> 'a jsval"

subsection \<open>Tracker objects, closures and the browser\<close>

text \<open>
  A value of \<open>history.pushState\<close> or \<open>history.replaceState\<close>: the browser's function, or
  the arrow function that the n-th run of \<open>setupPageTracking\<close> installed. A function is
  identified with what it does when called as a method of \<open>history\<close>, so
  \<open>f.bind(history)\<close> is \<open>f\<close>.
\<close>

datatype hist_fn = Native | Wrapper nat

text \<open>
  The variables that one run of \<open>setupPageTracking\<close> declares and its three handlers
  share, with the tracker (\<open>this\<close>) the handlers were created in, by address.
\<close>

record nav_env =
  currentUrl :: string
  isTracking :: bool
  owner :: nat

text \<open>A pending \<open>setTimeout\<close> callback of a navigation handler and the time it is due.\<close>

record timer =
  due :: nat
  t_env :: nat
  t_url :: string
  t_source :: string

text \<open>
  The fields of a tracker. \<open>trackedElements\<close> is the \<open>Set\<close> in insertion order; the
  mutation observer and the popstate handler are named by the number of the observer and of
  the closure; a field that is \<open>undefined\<close> or \<open>null\<close> is \<open>None\<close>.
\<close>

record ('e, 'a) tracker =
  analyticsInstance :: "'a call list"
  trackedElements :: "'e list"
  mutationObserver :: "nat option"
  originalPushState :: "hist_fn option"
  originalReplaceState :: "hist_fn option"
  popstateHandler :: "nat option"
  isInitialized :: bool

definition new_tracker :: "('e, 'a) tracker" where
  "new_tracker =
     \<lparr>analyticsInstance = [], trackedElements = [], mutationObserver = None,
      originalPushState = None, originalReplaceState = None, popstateHandler = None,
      isInitialized = False\<rparr>"

text \<open>
  The state. \<open>static_instance\<close> and \<open>static_isPageTrackingSetup\<close> are the two static
  fields of the class; \<open>heap\<close> holds the tracker objects by address, so that an object stays
  reachable by whoever holds it after the static reference is cleared.

  The listener registries count registrations: \<open>click_listeners\<close> has one entry
  \<open>(element, tracker)\<close> for each \<open>addEventListener("click", trackingEvent)\<close> of that
  tracker on that element, and \<open>removeEventListener\<close> takes one entry away. A browser
  ignores a registration that repeats an existing one; the registry here keeps it, so a
  bound on the number of listeners is a property of the code.
\<close>

record ('e, 'a) world =
  static_instance :: "nat option"
  static_isPageTrackingSetup :: bool
  heap :: "nat \<Rightarrow> ('e, 'a) tracker"
  next_addr :: nat
  envs :: "nat \<Rightarrow> nav_env"
  next_env :: nat
  next_observer :: nat
  location_href :: string
  history_pushState :: hist_fn
  history_replaceState :: hist_fn
  popstate_listeners :: "nat list"
  click_listeners :: "('e \<times> nat) list"
  observing :: "nat list"
  timers :: "timer list"
  now :: nat

text \<open>The state when the module has been loaded and nothing has been called.\<close>

definition initial_world :: "string \<Rightarrow> ('e, 'a) world" where
  "initial_world href =
     \<lparr>static_instance = None, static_isPageTrackingSetup = False,
      heap = (\<lambda>_. new_tracker), next_addr = 0,
      envs = (\<lambda>_. \<lparr>currentUrl = [], isTracking = False, owner = 0\<rparr>), next_env = 0,
      next_observer = 0, location_href = href,
      history_pushState = Native, history_replaceState = Native,
      popstate_listeners = [], click_listeners = [], observing = [],
      timers = [], now = 0\<rparr>"

text \<open>
  What the methods read from the page: the document's title and referrer, the query string
  and fragment of the location, and the elements and attributes of the DOM.
  \<open>hasAttribute_id\<close> is \<open>hasAttribute("data-rudderstack-id")\<close>, and the two
  \<open>querySelectorAll\<close> fields are the query for \<open>[data-rudderstack-id]\<close> on the
  document and below an element.
\<close>

record 'e document =
  document_title :: string
  document_referrer :: string
  location_search :: string
  location_hash :: string
  querySelectorAll_document :: "'e list"
  hasAttribute_id :: "'e \<Rightarrow> bool"
  querySelectorAll_element :: "'e \<Rightarrow> 'e list"
  getAttribute :: "'e \<Rightarrow> string \<Rightarrow> string option"

text \<open>
  The built-in functions the methods call, as parameters: \<open>new URL(u).pathname\<close>
  (\<open>None\<close> when the constructor raises \<open>TypeError\<close>); \<open>JSON.parse\<close> followed by
  object spread, that is the own enumerable properties of the parsed value (\<open>None\<close> when
  \<open>JSON.parse\<close> raises \<open>SyntaxError\<close>); and the expression
  \<open>NodeList.prototype.constructor.call(Object.create(NodeList.prototype), element)\<close>,
  which yields the elements that \<open>forEach\<close> then visits, or raises.
\<close>

record ('e, 'a) platform =
  url_pathname :: "string \<Rightarrow> string option"
  JSON_parse :: "string \<Rightarrow> (string \<rightharpoonup> 'a jsval) option"
  NodeList_of :: "'e \<Rightarrow> 'e list option"

section \<open>The methods\<close>

subsection \<open>trackPageView\<close>

text \<open>\<open>Array.prototype.some\<close> and \<open>Array.prototype.includes\<close>.\<close>

primrec some_list :: "('x \<Rightarrow> bool) \<Rightarrow> 'x list \<Rightarrow> bool" where
  "some_list P [] = False"
| "some_list P (x # xs) = (if P x then True else some_list P xs)"

definition array_includes :: "'x list \<Rightarrow> 'x \<Rightarrow> bool" where
  "array_includes xs x = (x \<in> set xs)"

text \<open>\<open>pathname.startsWith("/")\<close> and a match of the pattern \<open>/^\/[^\/]+$/\<close>.\<close>

definition startsWith_slash :: "string \<Rightarrow> bool" where
  "startsWith_slash s = (case s of [] \<Rightarrow> False | c # _ \<Rightarrow> c = CHR ''/'')"

definition match_segment :: "string \<Rightarrow> bool" where
  "match_segment s =
     (case s of [] \<Rightarrow> False
      | c # cs \<Rightarrow> c = CHR ''/'' \<and> cs \<noteq> [] \<and> list_all (\<lambda>d. d \<noteq> CHR ''/'') cs)"

definition shouldTrack :: "string list \<Rightarrow> string \<Rightarrow> bool" where
  "shouldTrack pages pathname =
     some_list
       (\<lambda>page.
          if page = pathname then True
          else if startsWith_slash pathname \<and> match_segment pathname
               then array_includes pages ''/[slug]''
          else False)
       pages"

definition page_properties ::
  "env \<Rightarrow> 'e document \<Rightarrow> string \<Rightarrow> string \<Rightarrow> string \<Rightarrow> (string \<rightharpoonup> 'a jsval)" where
  "page_properties ev doc url pathname source =
     [''url'' \<mapsto> JSString url,
      ''title'' \<mapsto> JSString (document_title doc),
      ''referrer'' \<mapsto> JSString (document_referrer doc),
      ''path'' \<mapsto> JSString pathname,
      ''search'' \<mapsto> JSString (location_search doc),
      ''hash'' \<mapsto> JSString (location_hash doc),
      ''source'' \<mapsto> JSString source]
     ++ common_properties ev"

text \<open>A call on the analytics client of the tracker at address \<open>this\<close>.\<close>

definition client_call :: "nat \<Rightarrow> 'a call \<Rightarrow> ('e, 'a) world \<Rightarrow> ('e, 'a) world" where
  "client_call this c w =
     w\<lparr>heap := (heap w)
          (this := (heap w this)\<lparr>analyticsInstance := analyticsInstance (heap w this) @ [c]\<rparr>)\<rparr>"

definition trackPageView ::
  "('e, 'a) platform \<Rightarrow> env \<Rightarrow> 'e document \<Rightarrow> nat \<Rightarrow> string \<Rightarrow> string \<Rightarrow>
   ('e, 'a) world \<Rightarrow> error option \<times> ('e, 'a) world" where
  "trackPageView pf ev doc this url source w =
     (case url_pathname pf url of
        None \<Rightarrow> (Some TypeError, w)
      | Some pathname \<Rightarrow>
          if \<not> shouldTrack (trackedPages ev) pathname then (None, w)
          else (None, client_call this (Page (page_properties ev doc url pathname source)) w))"

text \<open>
  The words of the specification for the wildcard rule: a single non-root segment, of the
  form \<open>/segment\<close> with no further slash.
\<close>

definition single_segment :: "string \<Rightarrow> bool" where
  "single_segment p = (\<exists>seg. p = CHR ''/'' # seg \<and> seg \<noteq> [] \<and> CHR ''/'' \<notin> set seg)"

definition page_calls :: "('e, 'a) world \<Rightarrow> nat \<Rightarrow> 'a call list" where
  "page_calls w this = filter (\<lambda>c. case c of Page _ \<Rightarrow> True | _ \<Rightarrow> False) (analyticsInstance (heap w this))"

subsection \<open>attachTrackingToElements\<close>

text \<open>
  The body of the \<open>forEach\<close> callback for one element, then the loop. \<open>has\<close> and
  \<open>add\<close> of the \<open>Set\<close> are membership in and extension of the list.
\<close>

definition set_tracker ::
  "nat \<Rightarrow> ('e, 'a) tracker \<Rightarrow> ('e, 'a) world \<Rightarrow> ('e, 'a) world" where
  "set_tracker this t w = w\<lparr>heap := (heap w)(this := t)\<rparr>"

definition attach_element :: "nat \<Rightarrow> 'e \<Rightarrow> ('e, 'a) world \<Rightarrow> ('e, 'a) world" where
  "attach_element this htmlElement w =
     (if \<not> array_includes (trackedElements (heap w this)) htmlElement
      then set_tracker this
             ((heap w this)\<lparr>trackedElements := trackedElements (heap w this) @ [htmlElement]\<rparr>)
             (w\<lparr>click_listeners := click_listeners w @ [(htmlElement, this)]\<rparr>)
      else w)"

definition attachTrackingToElements ::
  "nat \<Rightarrow> 'e list \<Rightarrow> ('e, 'a) world \<Rightarrow> ('e, 'a) world" where
  "attachTrackingToElements this elements w = fold (attach_element this) elements w"

subsection \<open>setupPageTracking and the navigation handlers\<close>

text \<open>
  The three handlers end in the same statements, which differ in the source tag only: read
  \<open>window.location.href\<close>, and when it differs from \<open>currentUrl\<close> and the gate
  \<open>isTracking\<close> is open, record it, close the gate and start a timer of 100 ms.
\<close>

definition on_navigation :: "nat \<Rightarrow> string \<Rightarrow> ('e, 'a) world \<Rightarrow> ('e, 'a) world" where
  "on_navigation c source w =
     (let newUrl = location_href w in
      if newUrl \<noteq> currentUrl (envs w c) \<and> isTracking (envs w c)
      then w\<lparr>envs := (envs w)(c := (envs w c)\<lparr>currentUrl := newUrl, isTracking := False\<rparr>),
             timers := timers w @
               [\<lparr>due = now w + 100, t_env = c, t_url = newUrl, t_source = source\<rparr>]\<rparr>
      else w)"

definition setupPageTracking ::
  "('e, 'a) platform \<Rightarrow> env \<Rightarrow> 'e document \<Rightarrow> nat \<Rightarrow> ('e, 'a) world \<Rightarrow>
   error option \<times> ('e, 'a) world" where
  "setupPageTracking pf ev doc this w =
     (case trackPageView pf ev doc this (location_href w) ''initial_load'' w of
        (Some e, w1) \<Rightarrow> (Some e, w1)
      | (None, w1) \<Rightarrow>
          if static_isPageTrackingSetup w1 then (None, w1)
          else
            (let c = next_env w1;
                 w2 = w1\<lparr>envs := (envs w1)
                         (c := \<lparr>currentUrl = location_href w1, isTracking = True, owner = this\<rparr>),
                       next_env := Suc c\<rparr>;
                 w3 = set_tracker this
                        ((heap w2 this)\<lparr>originalPushState := Some (history_pushState w2),
                                         originalReplaceState := Some (history_replaceState w2)\<rparr>)
                        w2;
                 w4 = w3\<lparr>history_pushState := Wrapper c, history_replaceState := Wrapper c\<rparr>;
                 w5 = set_tracker this ((heap w4 this)\<lparr>popstateHandler := Some c\<rparr>) w4;
                 w6 = w5\<lparr>popstate_listeners := popstate_listeners w5 @ [c]\<rparr>
             in (None, w6\<lparr>static_isPageTrackingSetup := True\<rparr>)))"

text \<open>
  A call of \<open>history.pushState\<close> or \<open>history.replaceState\<close>. The browser's function
  moves the location to the URL it is given (\<open>href\<close>, already resolved). A wrapper calls
  the function saved in the field of its tracker, then runs the handler. The saved function
  may be a wrapper again, so the call is defined as a partial function: \<open>None\<close> is a call
  that does not return.
\<close>

datatype slot = PushState | ReplaceState

definition saved_original :: "slot \<Rightarrow> ('e, 'a) tracker \<Rightarrow> hist_fn option" where
  "saved_original sl t =
     (case sl of PushState \<Rightarrow> originalPushState t | ReplaceState \<Rightarrow> originalReplaceState t)"

definition source_tag :: "slot \<Rightarrow> string" where
  "source_tag sl = (case sl of PushState \<Rightarrow> ''pushstate'' | ReplaceState \<Rightarrow> ''replacestate'')"

partial_function (option) call_history ::
  "slot \<Rightarrow> hist_fn \<Rightarrow> string \<Rightarrow> ('e, 'a) world \<Rightarrow> (error option \<times> ('e, 'a) world) option" where
  "call_history sl f href w =
     (case f of
        Native \<Rightarrow> Some (None, w\<lparr>location_href := href\<rparr>)
      | Wrapper c \<Rightarrow>
          (case saved_original sl (heap w (owner (envs w c))) of
             None \<Rightarrow> Some (Some TypeError, w)
           | Some original \<Rightarrow>
               Option.bind (call_history sl original href w)
                 (\<lambda>r. case r of
                        (Some e, w1) \<Rightarrow> Some (Some e, w1)
                      | (None, w1) \<Rightarrow> Some (None, on_navigation c (source_tag sl) w1))))"

definition history_call ::
  "slot \<Rightarrow> string \<Rightarrow> ('e, 'a) world \<Rightarrow> (error option \<times> ('e, 'a) world) option" where
  "history_call sl href w =
     call_history sl
       (case sl of PushState \<Rightarrow> history_pushState w | ReplaceState \<Rightarrow> history_replaceState w)
       href w"

text \<open>
  A back or forward navigation: the browser moves the location, then calls the registered
  popstate handlers in the order of their registration.
\<close>

definition popstate_event :: "string \<Rightarrow> ('e, 'a) world \<Rightarrow> ('e, 'a) world" where
  "popstate_event href w =
     fold (\<lambda>c. on_navigation c ''popstate'') (popstate_listeners w) (w\<lparr>location_href := href\<rparr>)"

text \<open>
  The timer callback: \<open>trackPageView(newUrl, source)\<close> on the tracker of the closure,
  then the gate opens again. An exception in a timer callback ends the callback.
  \<open>advance\<close> lets \<open>dt\<close> milliseconds pass and runs the callbacks that are due, in the order
  in which they were started (every timer has the same delay, so this is the order in which
  they are due).
\<close>

definition fire_timer ::
  "('e, 'a) platform \<Rightarrow> env \<Rightarrow> 'e document \<Rightarrow> timer \<Rightarrow> ('e, 'a) world \<Rightarrow> ('e, 'a) world" where
  "fire_timer pf ev doc t w =
     (case trackPageView pf ev doc (owner (envs w (t_env t))) (t_url t) (t_source t) w of
        (Some e, w1) \<Rightarrow> w1
      | (None, w1) \<Rightarrow>
          w1\<lparr>envs := (envs w1)(t_env t := (envs w1 (t_env t))\<lparr>isTracking := True\<rparr>)\<rparr>)"

definition advance ::
  "('e, 'a) platform \<Rightarrow> env \<Rightarrow> 'e document \<Rightarrow> nat \<Rightarrow> ('e, 'a) world \<Rightarrow> ('e, 'a) world" where
  "advance pf ev doc dt w =
     (let t = now w + dt in
      fold (fire_timer pf ev doc) (filter (\<lambda>x. due x \<le> t) (timers w))
        (w\<lparr>now := t, timers := filter (\<lambda>x. \<not> due x \<le> t) (timers w)\<rparr>))"

subsection \<open>setupObserver and the mutation callback\<close>

text \<open>
  The scan of the document, then a new observer, connected to \<open>document.body\<close>, which
  is taken to exist when the client is ready.
\<close>

definition setupObserver :: "'e document \<Rightarrow> nat \<Rightarrow> ('e, 'a) world \<Rightarrow> ('e, 'a) world" where
  "setupObserver doc this w =
     (let w1 = attachTrackingToElements this (querySelectorAll_document doc) w;
          ob = next_observer w1;
          w2 = set_tracker this ((heap w1 this)\<lparr>mutationObserver := Some ob\<rparr>)
                 (w1\<lparr>next_observer := Suc ob\<rparr>)
      in w2\<lparr>observing := observing w2 @ [ob]\<rparr>)"

text \<open>
  A mutation record as the callback reads it, and a node of \<open>addedNodes\<close>: an element, or a
  node of another type.
\<close>

datatype mutation_type = ChildList | Attributes | CharacterData

datatype 'e node = Element 'e | OtherNode

record 'e mutation =
  m_type :: mutation_type
  addedNodes :: "'e node list"
  attributeName :: "string option"
  target :: 'e

text \<open>A \<open>forEach\<close> whose callback may raise: the exception ends the loop.\<close>

primrec forEach ::
  "('x \<Rightarrow> 's \<Rightarrow> error option \<times> 's) \<Rightarrow> 'x list \<Rightarrow> 's \<Rightarrow> error option \<times> 's" where
  "forEach f [] s = (None, s)"
| "forEach f (x # xs) s =
     (case f x s of (Some e, s1) \<Rightarrow> (Some e, s1) | (None, s1) \<Rightarrow> forEach f xs s1)"

text \<open>
  \<open>attachTrackingToElements\<close> on the node list built from one element, as the callback
  does for an added element and for the target of an attribute change.
\<close>

definition attach_single ::
  "('e, 'a) platform \<Rightarrow> nat \<Rightarrow> 'e \<Rightarrow> ('e, 'a) world \<Rightarrow> error option \<times> ('e, 'a) world" where
  "attach_single pf this element w =
     (case NodeList_of pf element of
        None \<Rightarrow> (Some TypeError, w)
      | Some elements \<Rightarrow> (None, attachTrackingToElements this elements w))"

definition on_added_node ::
  "('e, 'a) platform \<Rightarrow> 'e document \<Rightarrow> nat \<Rightarrow> 'e node \<Rightarrow> ('e, 'a) world \<Rightarrow>
   error option \<times> ('e, 'a) world" where
  "on_added_node pf doc this n w =
     (case n of
        OtherNode \<Rightarrow> (None, w)
      | Element element \<Rightarrow>
          (case (if hasAttribute_id doc element then attach_single pf this element w
                 else (None, w)) of
             (Some e, w1) \<Rightarrow> (Some e, w1)
           | (None, w1) \<Rightarrow>
               (let childElements = querySelectorAll_element doc element in
                if length childElements > 0
                then (None, attachTrackingToElements this childElements w1)
                else (None, w1))))"

definition on_mutation ::
  "('e, 'a) platform \<Rightarrow> 'e document \<Rightarrow> nat \<Rightarrow> 'e mutation \<Rightarrow> ('e, 'a) world \<Rightarrow>
   error option \<times> ('e, 'a) world" where
  "on_mutation pf doc this m w =
     (case (if m_type m = ChildList
            then forEach (on_added_node pf doc this) (addedNodes m) w
            else (None, w)) of
        (Some e, w1) \<Rightarrow> (Some e, w1)
      | (None, w1) \<Rightarrow>
          if m_type m = Attributes \<and> attributeName m = Some ''data-rudderstack-id''
          then (if hasAttribute_id doc (target m) then attach_single pf this (target m) w1
                else (None, w1))
          else (None, w1))"

definition observer_callback ::
  "('e, 'a) platform \<Rightarrow> 'e document \<Rightarrow> nat \<Rightarrow> 'e mutation list \<Rightarrow> ('e, 'a) world \<Rightarrow>
   error option \<times> ('e, 'a) world" where
  "observer_callback pf doc this mutations w = forEach (on_mutation pf doc this) mutations w"

subsection \<open>trackingEvent\<close>

text \<open>The click handler of the tracker \<open>this\<close>, for a click on \<open>element\<close>.\<close>

definition trackingEvent ::
  "('e, 'a) platform \<Rightarrow> env \<Rightarrow> 'e document \<Rightarrow> nat \<Rightarrow> 'e \<Rightarrow> ('e, 'a) world \<Rightarrow>
   error option \<times> ('e, 'a) world" where
  "trackingEvent pf ev doc this element w =
     (let rudderEventName =
            or_default (getAttribute doc element ''data-rudderstack-event'') ''Element Clicked'';
          rudderTrackingProps = getAttribute doc element ''data-rudderstack-props''
      in case JSON_parse pf (or_default rudderTrackingProps ''{}'') of
           None \<Rightarrow> (Some SyntaxError, w)
         | Some properties \<Rightarrow>
             (None,
              client_call this (Track rudderEventName (common_properties ev ++ properties)) w))"

text \<open>
  A click on an element: the browser calls every click listener registered on it, in the
  order of registration; an exception in one listener does not stop the others.
\<close>

definition click ::
  "('e, 'a) platform \<Rightarrow> env \<Rightarrow> 'e document \<Rightarrow> 'e \<Rightarrow> ('e, 'a) world \<Rightarrow> ('e, 'a) world" where
  "click pf ev doc element w =
     fold (\<lambda>l w1. snd (trackingEvent pf ev doc (snd l) element w1))
       (filter (\<lambda>l. fst l = element) (click_listeners w)) w"

subsection \<open>getInstance, initialize and destroy\<close>

definition getInstance :: "('e, 'a) world \<Rightarrow> nat \<times> ('e, 'a) world" where
  "getInstance w =
     (case static_instance w of
        Some this \<Rightarrow> (this, w)
      | None \<Rightarrow>
          (let this = next_addr w
           in (this, (set_tracker this new_tracker w)
                       \<lparr>next_addr := Suc this, static_instance := Some this\<rparr>)))"

text \<open>
  \<open>initialize\<close> returns a promise. The call itself either returns a promise that is
  already resolved (\<open>Resolved\<close>), or it has called \<open>load\<close> and \<open>ready\<close> on the client
  and returns a promise that the callback given to \<open>ready\<close> resolves (\<open>Pending\<close>).
  \<open>on_ready\<close> is that callback; when it ends without an exception it has resolved the
  promise to \<open>true\<close>.
\<close>

datatype init_result = Resolved bool | Pending

definition initialize ::
  "env \<Rightarrow> nat \<Rightarrow> ('e, 'a) world \<Rightarrow> error option \<times> init_result \<times> ('e, 'a) world" where
  "initialize ev this w =
     (if isInitialized (heap w this) then (None, Resolved False, w)
      else if \<not> truthy (RUDDERSTACK_KEY ev) \<or> \<not> truthy (RUDDERSTACK_URL ev)
      then (None, Resolved False, w)
      else (None, Pending,
            client_call this Ready
              (client_call this
                 (Load (the (RUDDERSTACK_KEY ev)) (the (RUDDERSTACK_URL ev))) w)))"

definition on_ready ::
  "('e, 'a) platform \<Rightarrow> env \<Rightarrow> 'e document \<Rightarrow> nat \<Rightarrow> ('e, 'a) world \<Rightarrow>
   error option \<times> ('e, 'a) world" where
  "on_ready pf ev doc this w =
     (if \<not> isInitialized (heap w this)
      then (case setupPageTracking pf ev doc this w of
              (Some e, w1) \<Rightarrow> (Some e, w1)
            | (None, w1) \<Rightarrow>
                (let w2 = setupObserver doc this w1
                 in (None, set_tracker this ((heap w2 this)\<lparr>isInitialized := True\<rparr>) w2)))
      else (None, w))"

definition destroy :: "nat \<Rightarrow> ('e, 'a) world \<Rightarrow> error option \<times> ('e, 'a) world" where
  "destroy this w =
     (let w1 = w\<lparr>click_listeners :=
                  fold (\<lambda>element. remove1 (element, this)) (trackedElements (heap w this))
                    (click_listeners w)\<rparr>;
          w2 = set_tracker this ((heap w1 this)\<lparr>trackedElements := []\<rparr>) w1;
          w3 = (case mutationObserver (heap w2 this) of
                  Some ob \<Rightarrow>
                    set_tracker this ((heap w2 this)\<lparr>mutationObserver := None\<rparr>)
                      (w2\<lparr>observing := remove1 ob (observing w2)\<rparr>)
                | None \<Rightarrow> w2);
          w4 = (case originalPushState (heap w3 this) of
                  Some f \<Rightarrow> w3\<lparr>history_pushState := f\<rparr>
                | None \<Rightarrow> w3);
          w5 = (case originalReplaceState (heap w4 this) of
                  Some f \<Rightarrow> w4\<lparr>history_replaceState := f\<rparr>
                | None \<Rightarrow> w4);
          w6 = (case popstateHandler (heap w5 this) of
                  Some c \<Rightarrow>
                    set_tracker this ((heap w5 this)\<lparr>popstateHandler := None\<rparr>)
                      (w5\<lparr>popstate_listeners := remove1 c (popstate_listeners w5)\<rparr>)
                | None \<Rightarrow> w5);
          w7 = set_tracker this ((heap w6 this)\<lparr>isInitialized := False\<rparr>) w6
      in (None, w7\<lparr>static_instance := None, static_isPageTrackingSetup := False\<rparr>))"

subsection \<open>rudderstackTracking\<close>

text \<open>
  The exported wrapper, awaited: the singleton, its \<open>initialize\<close>, and when the promise
  is pending the callback that the client runs on readiness. The result names the tracker
  whose \<open>destroy\<close> is handed out, or is \<open>None\<close> for \<open>null\<close>. When the callback raises,
  the promise is never resolved and nothing is handed out.
\<close>

definition rudderstackTracking ::
  "('e, 'a) platform \<Rightarrow> env \<Rightarrow> 'e document \<Rightarrow> ('e, 'a) world \<Rightarrow>
   error option \<times> nat option \<times> ('e, 'a) world" where
  "rudderstackTracking pf ev doc w =
     (case getInstance w of
        (tracker, w1) \<Rightarrow>
          (case initialize ev tracker w1 of
             (Some e, _, w2) \<Rightarrow> (Some e, None, w2)
           | (None, Resolved success, w2) \<Rightarrow>
               (None, if success then Some tracker else None, w2)
           | (None, Pending, w2) \<Rightarrow>
               (case on_ready pf ev doc tracker w2 of
                  (Some e, w3) \<Rightarrow> (Some e, None, w3)
                | (None, w3) \<Rightarrow> (None, Some tracker, w3))))"

section \<open>Invariant and example inputs\<close>

text \<open>
  The elements on which the click handler of a tracker is registered, in the order of
  registration, and the invariant that ties them to the membership set of the tracker: the
  registrations are the members, each once.
\<close>

definition listeners_of :: "nat \<Rightarrow> ('e, 'a) world \<Rightarrow> 'e list" where
  "listeners_of this w = map fst (filter (\<lambda>l. snd l = this) (click_listeners w))"

definition tracking_inv :: "nat \<Rightarrow> ('e, 'a) world \<Rightarrow> bool" where
  "tracking_inv this w =
     (listeners_of this w = trackedElements (heap w this) \<and>
      distinct (trackedElements (heap w this)))"

text \<open>
  The rest of what holds of the registries in every state the program can reach: the click
  listeners belong to allocated trackers, and no observer and no popstate handler is
  registered twice. \<open>registry_same\<close> relates two states with the same registries and
  membership sets. The reachable states are those that the operations of the class and the
  events of the browser produce from a freshly loaded page, each method being called on an
  allocated tracker; the callbacks may run at any time, which covers the times at which
  the client and the browser do run them.
\<close>

definition registry_inv :: "('e, 'a) world \<Rightarrow> bool" where
  "registry_inv w =
     ((\<forall>l \<in> set (click_listeners w). snd l < next_addr w) \<and>
      distinct (observing w) \<and> (\<forall>ob \<in> set (observing w). ob < next_observer w) \<and>
      distinct (popstate_listeners w) \<and> (\<forall>c \<in> set (popstate_listeners w). c < next_env w))"

definition world_inv :: "('e, 'a) world \<Rightarrow> bool" where
  "world_inv w = ((\<forall>r. tracking_inv r w) \<and> registry_inv w)"

definition registry_same :: "('e, 'a) world \<Rightarrow> ('e, 'a) world \<Rightarrow> bool" where
  "registry_same w w' =
     (click_listeners w' = click_listeners w \<and>
      (\<forall>r. trackedElements (heap w' r) = trackedElements (heap w r)) \<and>
      next_addr w' = next_addr w \<and>
      observing w' = observing w \<and> next_observer w' = next_observer w \<and>
      popstate_listeners w' = popstate_listeners w \<and> next_env w' = next_env w)"

inductive reachable ::
  "('e, 'a) platform \<Rightarrow> env \<Rightarrow> ('e, 'a) world \<Rightarrow> bool" for pf ev where
  page_load: "reachable pf ev (initial_world href)"
| get_instance: "reachable pf ev w \<Longrightarrow> reachable pf ev (snd (getInstance w))"
| call_initialize:
    "reachable pf ev w \<Longrightarrow> this < next_addr w \<Longrightarrow>
     reachable pf ev (snd (snd (initialize ev this w)))"
| client_ready:
    "reachable pf ev w \<Longrightarrow> this < next_addr w \<Longrightarrow>
     reachable pf ev (snd (on_ready pf ev doc this w))"
| mutations:
    "reachable pf ev w \<Longrightarrow> this < next_addr w \<Longrightarrow>
     reachable pf ev (snd (observer_callback pf doc this ms w))"
| user_click: "reachable pf ev w \<Longrightarrow> reachable pf ev (click pf ev doc element w)"
| history_navigation:
    "reachable pf ev w \<Longrightarrow> history_call sl href w = Some (e, w') \<Longrightarrow> reachable pf ev w'"
| back_forward: "reachable pf ev w \<Longrightarrow> reachable pf ev (popstate_event href w)"
| time_passes: "reachable pf ev w \<Longrightarrow> reachable pf ev (advance pf ev doc dt w)"
| call_destroy:
    "reachable pf ev w \<Longrightarrow> this < next_addr w \<Longrightarrow> reachable pf ev (snd (destroy this w))"

text \<open>
  Concrete inputs for the closed instances of the theorems below: an environment with the
  allowlist \<open>/\<close>, \<open>/search\<close>, \<open>/[slug]\<close>; a runtime whose URL parser knows the origin
  \<open>https://example.com\<close>, whose JSON parser knows two texts and rejects every other, and
  whose \<open>NodeList\<close> constructor raises; a document with three tracked elements (element 1
  with an event name and a JSON object as properties, element 2 with properties that are not
  JSON, element 3 with an empty event name) and an element 4 that is not yet in the
  document; and the states
  after \<open>getInstance\<close> on a fresh page, after \<open>rudderstackTracking()\<close> has run once
  on \<open>/search\<close>, after \<open>destroy\<close> then, after a second
  \<open>rudderstackTracking()\<close>, and after a first \<open>pushState\<close> to \<open>/anything\<close>.

  Three longer runs follow. In the first, the \<open>destroy\<close> handed out by the first
  \<open>rudderstackTracking()\<close> is called once more while the second tracker is in use
  (\<open>stale_world\<close>), and \<open>rudderstackTracking()\<close> is called a third time
  (\<open>stacked_world\<close>). In the second, after the first \<open>destroy\<close> a new tracker is
  obtained and left alone (\<open>idle_world\<close>), the first tracker is initialized again
  (\<open>reinitialized_world\<close>), the idle tracker is destroyed (\<open>unhooked_world\<close>) and
  \<open>rudderstackTracking()\<close> is called (\<open>nested_world\<close>). In the third, 40 ms after
  the first \<open>pushState\<close> a second one goes back to \<open>/search\<close>
  (\<open>suppressed_world\<close>), 60 ms later the timer has fired (\<open>settled_world\<close>), and
  then \<open>replaceState\<close> is called with the URL the page is on (\<open>replaced_world\<close>).
  \<open>twice_pushed_world\<close> is \<open>nested_world\<close> after the browser has moved the
  location to \<open>/anything\<close> and the handlers of the closures 1 and 2 have run.
\<close>

definition example_env :: env where
  "example_env =
     \<lparr>RUDDERSTACK_KEY = Some ''write-key'', RUDDERSTACK_URL = Some ''https://dataplane.example.com'',
      RUDDERSTACK_GAME_ID = Some ''game-1'', RUDDERSTACK_PROJECT_ID = None,
      trackedPages = [''/'', ''/search'', ''/[slug]'']\<rparr>"

definition example_platform :: "(nat, unit) platform" where
  "example_platform =
     \<lparr>url_pathname = (\<lambda>u. if take 19 u = ''https://example.com''
                           then Some (if drop 19 u = [] then ''/'' else drop 19 u) else None),
      JSON_parse = (\<lambda>s. if s = ''{}'' then Some Map.empty
                        else if s = ''{\"plan\":\"pro\"}'' then Some [''plan'' \<mapsto> JSString ''pro'']
                        else None),
      NodeList_of = (\<lambda>e. None)\<rparr>"

definition example_document :: "nat document" where
  "example_document =
     \<lparr>document_title = ''Home'', document_referrer = [], location_search = [],
      location_hash = [],
      querySelectorAll_document = [1, 2, 3],
      hasAttribute_id = (\<lambda>e. e \<in> {1, 2, 3, 4}),
      querySelectorAll_element = (\<lambda>e. []),
      getAttribute =
        (\<lambda>e a. if e = 1 \<and> a = ''data-rudderstack-event'' then Some ''Buy Clicked''
               else if e = 1 \<and> a = ''data-rudderstack-props'' then Some ''{\"plan\":\"pro\"}''
               else if e = 2 \<and> a = ''data-rudderstack-props'' then Some ''{plan''
               else if e = 3 \<and> a = ''data-rudderstack-event'' then Some []
               else if a = ''data-rudderstack-id'' \<and> e \<in> {1, 2, 3, 4} then Some ''cta''
               else None)\<rparr>"

definition started_world :: "(nat, unit) world" where
  "started_world =
     snd (snd (rudderstackTracking example_platform example_env example_document
                 (initial_world ''https://example.com/search'')))"

definition fresh_world :: "(nat, unit) world" where
  "fresh_world = snd (getInstance (initial_world ''https://example.com/search''))"

definition destroyed_world :: "(nat, unit) world" where
  "destroyed_world = snd (destroy 0 started_world)"

definition restarted_world :: "(nat, unit) world" where
  "restarted_world =
     snd (snd (rudderstackTracking example_platform example_env example_document
                 destroyed_world))"


definition stale_world :: "(nat, unit) world" where
  "stale_world = snd (destroy 0 restarted_world)"

definition stacked_world :: "(nat, unit) world" where
  "stacked_world =
     snd (snd (rudderstackTracking example_platform example_env example_document stale_world))"

definition idle_world :: "(nat, unit) world" where
  "idle_world = snd (getInstance destroyed_world)"

definition reinitialized_world :: "(nat, unit) world" where
  "reinitialized_world =
     snd (on_ready example_platform example_env example_document 0
            (snd (snd (initialize example_env 0 idle_world))))"

definition unhooked_world :: "(nat, unit) world" where
  "unhooked_world = snd (destroy 1 reinitialized_world)"






section \<open>Page-view filtering\<close>

lemma some_list_iff: "some_list P xs = (\<exists>x \<in> set xs. P x)"
  by (induction xs) auto

lemma match_segment_iff: "match_segment p = single_segment p"
  by (cases p) (auto simp: match_segment_def single_segment_def list_all_iff)

lemma shouldTrack_iff:
  "shouldTrack pages p = (p \<in> set pages \<or> (single_segment p \<and> ''/[slug]'' \<in> set pages))"
proof -
  have "single_segment p \<Longrightarrow> startsWith_slash p"
    by (auto simp: single_segment_def startsWith_slash_def)
  then show ?thesis
    unfolding shouldTrack_def some_list_iff array_includes_def match_segment_iff
    by auto
qed

lemma page_calls_client_call:
  "page_calls (client_call this c w) this =
     page_calls w this @ (case c of Page p \<Rightarrow> [c] | _ \<Rightarrow> [])"
  by (cases c) (simp_all add: page_calls_def client_call_def)

text \<open>
  Claim C1. For every URL given to \<open>trackPageView\<close>, the \<open>page\<close> operation of the
  client is called if and only if the URL has a path and the path is an entry of the
  allowlist, or the path is a single non-root segment and the allowlist contains
  \<open>/[slug]\<close>. When it is called, it is called once, with the payload built from that
  path; when it is not, nothing changes. For the allowlist \<open>/\<close>, \<open>/search\<close>,
  \<open>/[slug]\<close> the paths \<open>/\<close>, \<open>/search\<close> and \<open>/anything\<close> are tracked and
  \<open>/a/b\<close> is not.
\<close>

theorem trackPageView_allowlist:
  "(let tracked = (\<exists>p. url_pathname pf url = Some p \<and>
                       (p \<in> set (trackedPages ev) \<or>
                        (single_segment p \<and> ''/[slug]'' \<in> set (trackedPages ev))));
        w' = snd (trackPageView pf ev doc this url source w)
    in (length (page_calls w' this) = Suc (length (page_calls w this))) = tracked
       \<and> (tracked \<longrightarrow>
            w' = client_call this
                   (Page (page_properties ev doc url (the (url_pathname pf url)) source)) w
            \<and> page_calls w' this = page_calls w this @
                   [Page (page_properties ev doc url (the (url_pathname pf url)) source)])
       \<and> (\<not> tracked \<longrightarrow> w' = w))
   \<and> (trackedPages ev = [''/'', ''/search'', ''/[slug]''] \<longrightarrow>
        (url_pathname pf url \<in> {Some ''/'', Some ''/search'', Some ''/anything''} \<longrightarrow>
           length (page_calls (snd (trackPageView pf ev doc this url source w)) this)
             = Suc (length (page_calls w this)))
        \<and> (url_pathname pf url = Some ''/a/b'' \<longrightarrow>
             snd (trackPageView pf ev doc this url source w) = w))"
proof -
  have ex: "single_segment ''/anything''" "\<not> single_segment ''/a/b''"
    by (simp_all add: single_segment_def)
  show ?thesis
    using ex
    by (auto simp: Let_def trackPageView_def shouldTrack_iff page_calls_client_call
             split: option.splits)
qed

theorem trackPageView_allowlist_witness:
  "length (page_calls
      (snd (trackPageView example_platform example_env example_document 0
              ''https://example.com/anything'' ''pushstate''
              (initial_world ''https://example.com/anything''))) 0) = 1
   \<and> snd (trackPageView example_platform example_env example_document 0
              ''https://example.com/a/b'' ''pushstate''
              (initial_world ''https://example.com/a/b''))
     = initial_world ''https://example.com/a/b''"
  using trackPageView_allowlist [of example_platform "''https://example.com/anything''"
          example_env example_document 0 "''pushstate''"
          "initial_world ''https://example.com/anything''"]
        trackPageView_allowlist [of example_platform "''https://example.com/a/b''"
          example_env example_document 0 "''pushstate''"
          "initial_world ''https://example.com/a/b''"]
  by (simp add: example_platform_def example_env_def page_calls_def initial_world_def
        new_tracker_def)

section \<open>Evaluation of the example\<close>

lemma started_world_eq:
  "started_world =
     \<lparr>static_instance = Some 0, static_isPageTrackingSetup = True,
      heap = (\<lambda>_. new_tracker)
        (0 := \<lparr>analyticsInstance =
                 [Load ''write-key'' ''https://dataplane.example.com'', Ready,
                  Page (page_properties example_env example_document
                          ''https://example.com/search'' ''/search'' ''initial_load'')],
               trackedElements = [1, 2, 3], mutationObserver = Some 0,
               originalPushState = Some Native, originalReplaceState = Some Native,
               popstateHandler = Some 0, isInitialized = True\<rparr>),
      next_addr = 1,
      envs = (\<lambda>_. \<lparr>currentUrl = [], isTracking = False, owner = 0\<rparr>)
        (0 := \<lparr>currentUrl = ''https://example.com/search'', isTracking = True, owner = 0\<rparr>),
      next_env = 1, next_observer = 1,
      location_href = ''https://example.com/search'',
      history_pushState = Wrapper 0, history_replaceState = Wrapper 0,
      popstate_listeners = [0], click_listeners = [(1, 0), (2, 0), (3, 0)],
      observing = [0], timers = [], now = 0\<rparr>"
  unfolding started_world_def rudderstackTracking_def
  apply (simp add: getInstance_def initial_world_def Let_def set_tracker_def)
  apply (simp add: initialize_def truthy_def example_env_def client_call_def new_tracker_def)
  apply (simp add: on_ready_def)
  apply (simp add: setupPageTracking_def)
  apply (simp add: trackPageView_def shouldTrack_def startsWith_slash_def match_segment_def
           array_includes_def client_call_def example_platform_def Let_def set_tracker_def)
  apply (simp add: setupObserver_def example_document_def)
  apply (simp add: attachTrackingToElements_def attach_element_def array_includes_def
           set_tracker_def Let_def)
  done

lemma started_world_fields:
  "click_listeners started_world = [(1, 0), (2, 0), (3, 0)]"
  "trackedElements (heap started_world 0) = [1, 2, 3]"
  "isInitialized (heap started_world 0)"
  "static_instance started_world = Some 0"
  "static_isPageTrackingSetup started_world"
  "history_pushState started_world = Wrapper 0"
  "history_replaceState started_world = Wrapper 0"
  "popstate_listeners started_world = [0]"
  "observing started_world = [0]"
  "mutationObserver (heap started_world 0) = Some 0"
  "originalPushState (heap started_world 0) = Some Native"
  "originalReplaceState (heap started_world 0) = Some Native"
  "popstateHandler (heap started_world 0) = Some 0"
  "next_addr started_world = 1"
  "next_env started_world = 1"
  "timers started_world = []"
  "now started_world = 0"
  "envs started_world 0 =
     \<lparr>currentUrl = ''https://example.com/search'', isTracking = True, owner = 0\<rparr>"
  "location_href started_world = ''https://example.com/search''"
  "analyticsInstance (heap started_world 0) =
     [Load ''write-key'' ''https://dataplane.example.com'', Ready,
      Page (page_properties example_env example_document
              ''https://example.com/search'' ''/search'' ''initial_load'')]"
  by (simp_all add: started_world_eq)

lemma fresh_world_fields:
  "static_instance fresh_world = Some 0"
  "heap fresh_world 0 = new_tracker"
  "history_pushState fresh_world = Native"
  "history_replaceState fresh_world = Native"
  "popstate_listeners fresh_world = []"
  "location_href fresh_world = ''https://example.com/search''"
  by (simp_all add: fresh_world_def getInstance_def initial_world_def Let_def set_tracker_def)

lemma first_call_pending:
  "initialize example_env 0 fresh_world
     = (None, Pending, snd (snd (initialize example_env 0 fresh_world)))"
  by (simp add: initialize_def fresh_world_fields new_tracker_def example_env_def truthy_def)

lemma first_call_ready:
  "on_ready example_platform example_env example_document 0
     (snd (snd (initialize example_env 0 fresh_world))) = (None, started_world)"
  unfolding started_world_eq fresh_world_def
  apply (simp add: getInstance_def initial_world_def Let_def set_tracker_def)
  apply (simp add: initialize_def truthy_def example_env_def client_call_def new_tracker_def)
  apply (simp add: on_ready_def)
  apply (simp add: setupPageTracking_def)
  apply (simp add: trackPageView_def shouldTrack_def startsWith_slash_def match_segment_def
           array_includes_def client_call_def example_platform_def Let_def set_tracker_def)
  apply (simp add: setupObserver_def example_document_def)
  apply (simp add: attachTrackingToElements_def attach_element_def array_includes_def
           set_tracker_def Let_def)
  done

lemma destroyed_world_eq:
  "destroyed_world =
     \<lparr>static_instance = None, static_isPageTrackingSetup = False,
      heap = (\<lambda>_. new_tracker)
        (0 := \<lparr>analyticsInstance =
                 [Load ''write-key'' ''https://dataplane.example.com'', Ready,
                  Page (page_properties example_env example_document
                          ''https://example.com/search'' ''/search'' ''initial_load'')],
               trackedElements = [], mutationObserver = None,
               originalPushState = Some Native, originalReplaceState = Some Native,
               popstateHandler = None, isInitialized = False\<rparr>),
      next_addr = 1,
      envs = (\<lambda>_. \<lparr>currentUrl = [], isTracking = False, owner = 0\<rparr>)
        (0 := \<lparr>currentUrl = ''https://example.com/search'', isTracking = True, owner = 0\<rparr>),
      next_env = 1, next_observer = 1,
      location_href = ''https://example.com/search'',
      history_pushState = Native, history_replaceState = Native,
      popstate_listeners = [], click_listeners = [], observing = [], timers = [], now = 0\<rparr>"
  by (simp add: destroyed_world_def started_world_eq destroy_def Let_def set_tracker_def)

lemma destroyed_world_fields:
  "static_isPageTrackingSetup destroyed_world = False"
  "static_instance destroyed_world = None"
  "history_pushState destroyed_world = Native"
  "history_replaceState destroyed_world = Native"
  "popstate_listeners destroyed_world = []"
  "click_listeners destroyed_world = []"
  "observing destroyed_world = []"
  by (simp_all add: destroyed_world_eq)

lemma restarted_world_eq:
  "restarted_world =
     \<lparr>static_instance = Some 1, static_isPageTrackingSetup = True,
      heap = (\<lambda>_. new_tracker)
        (0 := \<lparr>analyticsInstance =
                 [Load ''write-key'' ''https://dataplane.example.com'', Ready,
                  Page (page_properties example_env example_document
                          ''https://example.com/search'' ''/search'' ''initial_load'')],
               trackedElements = [], mutationObserver = None,
               originalPushState = Some Native, originalReplaceState = Some Native,
               popstateHandler = None, isInitialized = False\<rparr>,
         1 := \<lparr>analyticsInstance =
                 [Load ''write-key'' ''https://dataplane.example.com'', Ready,
                  Page (page_properties example_env example_document
                          ''https://example.com/search'' ''/search'' ''initial_load'')],
               trackedElements = [1, 2, 3], mutationObserver = Some 1,
               originalPushState = Some Native, originalReplaceState = Some Native,
               popstateHandler = Some 1, isInitialized = True\<rparr>),
      next_addr = 2,
      envs = (\<lambda>_. \<lparr>currentUrl = [], isTracking = False, owner = 0\<rparr>)
        (0 := \<lparr>currentUrl = ''https://example.com/search'', isTracking = True, owner = 0\<rparr>,
         1 := \<lparr>currentUrl = ''https://example.com/search'', isTracking = True, owner = 1\<rparr>),
      next_env = 2, next_observer = 2,
      location_href = ''https://example.com/search'',
      history_pushState = Wrapper 1, history_replaceState = Wrapper 1,
      popstate_listeners = [1], click_listeners = [(1, 1), (2, 1), (3, 1)],
      observing = [1], timers = [], now = 0\<rparr>"
  unfolding restarted_world_def rudderstackTracking_def destroyed_world_eq
  apply (simp add: getInstance_def Let_def set_tracker_def)
  apply (simp add: initialize_def truthy_def example_env_def client_call_def new_tracker_def)
  apply (simp add: on_ready_def)
  apply (simp add: setupPageTracking_def)
  apply (simp add: trackPageView_def shouldTrack_def startsWith_slash_def match_segment_def
           array_includes_def client_call_def example_platform_def Let_def set_tracker_def)
  apply (simp add: setupObserver_def example_document_def)
  apply (simp add: attachTrackingToElements_def attach_element_def array_includes_def
           set_tracker_def Let_def)
  done

lemma restarted_world_fields:
  "static_isPageTrackingSetup restarted_world"
  "static_instance restarted_world = Some 1"
  "history_pushState restarted_world = Wrapper 1"
  "history_replaceState restarted_world = Wrapper 1"
  "popstate_listeners restarted_world = [1]"
  "click_listeners restarted_world = [(1, 1), (2, 1), (3, 1)]"
  "isInitialized (heap restarted_world 1)"
  by (simp_all add: restarted_world_eq)

lemma stale_world_eq:
  "stale_world =
     \<lparr>static_instance = None, static_isPageTrackingSetup = False,
      heap = (\<lambda>_. new_tracker)
        (0 := \<lparr>analyticsInstance =
                 [Load ''write-key'' ''https://dataplane.example.com'', Ready,
                  Page (page_properties example_env example_document
                          ''https://example.com/search'' ''/search'' ''initial_load'')],
               trackedElements = [], mutationObserver = None,
               originalPushState = Some Native, originalReplaceState = Some Native,
               popstateHandler = None, isInitialized = False\<rparr>,
         1 := \<lparr>analyticsInstance =
                 [Load ''write-key'' ''https://dataplane.example.com'', Ready,
                  Page (page_properties example_env example_document
                          ''https://example.com/search'' ''/search'' ''initial_load'')],
               trackedElements = [1, 2, 3], mutationObserver = Some 1,
               originalPushState = Some Native, originalReplaceState = Some Native,
               popstateHandler = Some 1, isInitialized = True\<rparr>),
      next_addr = 2,
      envs = (\<lambda>_. \<lparr>currentUrl = [], isTracking = False, owner = 0\<rparr>)
        (0 := \<lparr>currentUrl = ''https://example.com/search'', isTracking = True, owner = 0\<rparr>,
         1 := \<lparr>currentUrl = ''https://example.com/search'', isTracking = True, owner = 1\<rparr>),
      next_env = 2, next_observer = 2,
      location_href = ''https://example.com/search'',
      history_pushState = Native, history_replaceState = Native,
      popstate_listeners = [1], click_listeners = [(1, 1), (2, 1), (3, 1)],
      observing = [1], timers = [], now = 0\<rparr>"
  by (simp add: stale_world_def restarted_world_eq destroy_def Let_def set_tracker_def fun_upd_twist)

lemma stacked_world_eq:
  "stacked_world =
     \<lparr>static_instance = Some 2, static_isPageTrackingSetup = True,
      heap = (\<lambda>_. new_tracker)
        (0 := \<lparr>analyticsInstance =
                 [Load ''write-key'' ''https://dataplane.example.com'', Ready,
                  Page (page_properties example_env example_document
                          ''https://example.com/search'' ''/search'' ''initial_load'')],
               trackedElements = [], mutationObserver = None,
               originalPushState = Some Native, originalReplaceState = Some Native,
               popstateHandler = None, isInitialized = False\<rparr>,
         1 := \<lparr>analyticsInstance =
                 [Load ''write-key'' ''https://dataplane.example.com'', Ready,
                  Page (page_properties example_env example_document
                          ''https://example.com/search'' ''/search'' ''initial_load'')],
               trackedElements = [1, 2, 3], mutationObserver = Some 1,
               originalPushState = Some Native, originalReplaceState = Some Native,
               popstateHandler = Some 1, isInitialized = True\<rparr>,
         2 := \<lparr>analyticsInstance =
                 [Load ''write-key'' ''https://dataplane.example.com'', Ready,
                  Page (page_properties example_env example_document
                          ''https://example.com/search'' ''/search'' ''initial_load'')],
               trackedElements = [1, 2, 3], mutationObserver = Some 2,
               originalPushState = Some Native, originalReplaceState = Some Native,
               popstateHandler = Some 2, isInitialized = True\<rparr>),
      next_addr = 3,
      envs = (\<lambda>_. \<lparr>currentUrl = [], isTracking = False, owner = 0\<rparr>)
        (0 := \<lparr>currentUrl = ''https://example.com/search'', isTracking = True, owner = 0\<rparr>,
         1 := \<lparr>currentUrl = ''https://example.com/search'', isTracking = True, owner = 1\<rparr>,
         2 := \<lparr>currentUrl = ''https://example.com/search'', isTracking = True, owner = 2\<rparr>),
      next_env = 3, next_observer = 3,
      location_href = ''https://example.com/search'',
      history_pushState = Wrapper 2, history_replaceState = Wrapper 2,
      popstate_listeners = [1, 2],
      click_listeners = [(1, 1), (2, 1), (3, 1), (1, 2), (2, 2), (3, 2)],
      observing = [1, 2], timers = [], now = 0\<rparr>"
  unfolding stacked_world_def rudderstackTracking_def stale_world_eq
  apply (simp add: getInstance_def Let_def set_tracker_def)
  apply (simp add: initialize_def truthy_def example_env_def client_call_def new_tracker_def)
  apply (simp add: on_ready_def)
  apply (simp add: setupPageTracking_def)
  apply (simp add: trackPageView_def shouldTrack_def startsWith_slash_def match_segment_def
           array_includes_def client_call_def example_platform_def Let_def set_tracker_def)
  apply (simp add: setupObserver_def example_document_def)
  apply (simp add: attachTrackingToElements_def attach_element_def array_includes_def
           set_tracker_def Let_def)
  done

lemma idle_world_eq:
  "idle_world =
     \<lparr>static_instance = Some 1, static_isPageTrackingSetup = False,
      heap = (\<lambda>_. new_tracker)
        (0 := \<lparr>analyticsInstance =
                 [Load ''write-key'' ''https://dataplane.example.com'', Ready,
                  Page (page_properties example_env example_document
                          ''https://example.com/search'' ''/search'' ''initial_load'')],
               trackedElements = [], mutationObserver = None,
               originalPushState = Some Native, originalReplaceState = Some Native,
               popstateHandler = None, isInitialized = False\<rparr>,
         1 := new_tracker),
      next_addr = 2,
      envs = (\<lambda>_. \<lparr>currentUrl = [], isTracking = False, owner = 0\<rparr>)
        (0 := \<lparr>currentUrl = ''https://example.com/search'', isTracking = True, owner = 0\<rparr>),
      next_env = 1, next_observer = 1,
      location_href = ''https://example.com/search'',
      history_pushState = Native, history_replaceState = Native,
      popstate_listeners = [], click_listeners = [], observing = [], timers = [], now = 0\<rparr>"
  by (simp add: idle_world_def destroyed_world_eq getInstance_def Let_def set_tracker_def)

lemma reinitialized_world_eq:
  "reinitialized_world =
     \<lparr>static_instance = Some 1, static_isPageTrackingSetup = True,
      heap = (\<lambda>_. new_tracker)
        (0 := \<lparr>analyticsInstance =
                 [Load ''write-key'' ''https://dataplane.example.com'', Ready,
                  Page (page_properties example_env example_document
                          ''https://example.com/search'' ''/search'' ''initial_load''),
                  Load ''write-key'' ''https://dataplane.example.com'', Ready,
                  Page (page_properties example_env example_document
                          ''https://example.com/search'' ''/search'' ''initial_load'')],
               trackedElements = [1, 2, 3], mutationObserver = Some 1,
               originalPushState = Some Native, originalReplaceState = Some Native,
               popstateHandler = Some 1, isInitialized = True\<rparr>,
         1 := new_tracker),
      next_addr = 2,
      envs = (\<lambda>_. \<lparr>currentUrl = [], isTracking = False, owner = 0\<rparr>)
        (0 := \<lparr>currentUrl = ''https://example.com/search'', isTracking = True, owner = 0\<rparr>,
         1 := \<lparr>currentUrl = ''https://example.com/search'', isTracking = True, owner = 0\<rparr>),
      next_env = 2, next_observer = 2,
      location_href = ''https://example.com/search'',
      history_pushState = Wrapper 1, history_replaceState = Wrapper 1,
      popstate_listeners = [1], click_listeners = [(1, 0), (2, 0), (3, 0)],
      observing = [1], timers = [], now = 0\<rparr>"
  unfolding reinitialized_world_def idle_world_eq
  apply (simp add: initialize_def truthy_def example_env_def client_call_def new_tracker_def)
  apply (simp add: on_ready_def)
  apply (simp add: setupPageTracking_def)
  apply (simp add: trackPageView_def shouldTrack_def startsWith_slash_def match_segment_def
           array_includes_def client_call_def example_platform_def Let_def set_tracker_def)
  apply (simp add: setupObserver_def example_document_def)
  apply (simp add: attachTrackingToElements_def attach_element_def array_includes_def
           set_tracker_def Let_def fun_upd_twist)
  done

lemma unhooked_world_eq:
  "unhooked_world =
     \<lparr>static_instance = None, static_isPageTrackingSetup = False,
      heap = (\<lambda>_. new_tracker)
        (0 := \<lparr>analyticsInstance =
                 [Load ''write-key'' ''https://dataplane.example.com'', Ready,
                  Page (page_properties example_env example_document
                          ''https://example.com/search'' ''/search'' ''initial_load''),
                  Load ''write-key'' ''https://dataplane.example.com'', Ready,
                  Page (page_properties example_env example_document
                          ''https://example.com/search'' ''/search'' ''initial_load'')],
               trackedElements = [1, 2, 3], mutationObserver = Some 1,
               originalPushState = Some Native, originalReplaceState = Some Native,
               popstateHandler = Some 1, isInitialized = True\<rparr>,
         1 := new_tracker),
      next_addr = 2,
      envs = (\<lambda>_. \<lparr>currentUrl = [], isTracking = False, owner = 0\<rparr>)
        (0 := \<lparr>currentUrl = ''https://example.com/search'', isTracking = True, owner = 0\<rparr>,
         1 := \<lparr>currentUrl = ''https://example.com/search'', isTracking = True, owner = 0\<rparr>),
      next_env = 2, next_observer = 2,
      location_href = ''https://example.com/search'',
      history_pushState = Wrapper 1, history_replaceState = Wrapper 1,
      popstate_listeners = [1], click_listeners = [(1, 0), (2, 0), (3, 0)],
      observing = [1], timers = [], now = 0\<rparr>"
  unfolding unhooked_world_def reinitialized_world_eq
  by (simp add: destroy_def Let_def set_tracker_def new_tracker_def fun_upd_twist)











section \<open>The click-listener invariant\<close>

lemma attach_element_inv:
  "tracking_inv r w \<Longrightarrow> tracking_inv r (attach_element this e w)"
  by (auto simp: tracking_inv_def listeners_of_def attach_element_def set_tracker_def
        array_includes_def)

lemma attachTrackingToElements_inv:
  "tracking_inv r w \<Longrightarrow> tracking_inv r (attachTrackingToElements this es w)"
  unfolding attachTrackingToElements_def
  by (induction es arbitrary: w) (simp_all add: attach_element_inv)

lemma attach_single_inv:
  "tracking_inv r w \<Longrightarrow> tracking_inv r (snd (attach_single pf this e w))"
  by (simp add: attach_single_def attachTrackingToElements_inv split: option.splits)

lemma forEach_inv:
  assumes step: "\<And>x s. P s \<Longrightarrow> P (snd (f x s))"
  shows "P s \<Longrightarrow> P (snd (forEach f xs s))"
proof (induction xs arbitrary: s)
  case Nil
  then show ?case by simp
next
  case (Cons x xs)
  from Cons.prems have "P (snd (f x s))" by (rule step)
  with Cons.IH show ?case
    by (cases "f x s") (auto split: option.splits)
qed

lemma on_added_node_inv:
  "tracking_inv r w \<Longrightarrow> tracking_inv r (snd (on_added_node pf doc this n w))"
proof (cases n)
  case OtherNode
  then show "tracking_inv r w \<Longrightarrow> ?thesis" by (simp add: on_added_node_def)
next
  case (Element el)
  assume inv: "tracking_inv r w"
  have a: "tracking_inv r (snd (attach_single pf this el w))"
    using inv by (rule attach_single_inv)
  show ?thesis
    using inv a Element
    by (cases "attach_single pf this el w")
       (auto simp: on_added_node_def Let_def attachTrackingToElements_inv split: option.splits)
qed

lemma on_mutation_inv:
  assumes "tracking_inv r w"
  shows "tracking_inv r (snd (on_mutation pf doc this m w))"
proof -
  let ?first = "if m_type m = ChildList
                then forEach (on_added_node pf doc this) (addedNodes m) w else (None, w)"
  have f: "tracking_inv r (snd ?first)"
    using assms forEach_inv [of "tracking_inv r" "on_added_node pf doc this"]
    by (simp add: on_added_node_inv)
  obtain e1 w1 where first: "?first = (e1, w1)" by (cases ?first)
  with f have w1: "tracking_inv r w1" by simp
  have "tracking_inv r (snd (attach_single pf this (target m) w1))"
    using w1 by (rule attach_single_inv)
  with w1 first show ?thesis
    unfolding on_mutation_def by (cases e1) (simp_all del: forEach.simps)
qed

lemma observer_callback_inv:
  "tracking_inv r w \<Longrightarrow> tracking_inv r (snd (observer_callback pf doc this ms w))"
  unfolding observer_callback_def
  by (rule forEach_inv [of "tracking_inv r"]) (rule on_mutation_inv)

lemma tracking_inv_frame:
  "click_listeners w' = click_listeners w \<Longrightarrow>
   trackedElements (heap w' r) = trackedElements (heap w r) \<Longrightarrow>
   tracking_inv r w' = tracking_inv r w"
  by (simp add: tracking_inv_def listeners_of_def)

lemma setupObserver_inv:
  "tracking_inv r w \<Longrightarrow> tracking_inv r (setupObserver doc this w)"
proof -
  assume "tracking_inv r w"
  then have a: "tracking_inv r (attachTrackingToElements this (querySelectorAll_document doc) w)"
    by (rule attachTrackingToElements_inv)
  have "tracking_inv r (setupObserver doc this w) =
        tracking_inv r (attachTrackingToElements this (querySelectorAll_document doc) w)"
    by (rule tracking_inv_frame) (simp_all add: setupObserver_def Let_def set_tracker_def)
  with a show ?thesis by simp
qed

lemma map_fst_filter_remove1_same:
  "map fst (filter (\<lambda>l. snd l = this) (remove1 (e, this) ls)) =
   remove1 e (map fst (filter (\<lambda>l. snd l = this) ls))"
  by (induction ls) auto

lemma filter_remove1_other:
  "r \<noteq> this \<Longrightarrow> filter (\<lambda>l. snd l = r) (remove1 (e, this) ls) = filter (\<lambda>l. snd l = r) ls"
  by (induction ls) auto

lemma listeners_fold_remove1_same:
  "map fst (filter (\<lambda>l. snd l = this) (fold (\<lambda>e. remove1 (e, this)) es ls)) =
   fold remove1 es (map fst (filter (\<lambda>l. snd l = this) ls))"
  by (induction es arbitrary: ls) (simp_all add: map_fst_filter_remove1_same)

lemma listeners_fold_remove1_other:
  "r \<noteq> this \<Longrightarrow>
   filter (\<lambda>l. snd l = r) (fold (\<lambda>e. remove1 (e, this)) es ls) = filter (\<lambda>l. snd l = r) ls"
  by (induction es arbitrary: ls) (simp_all add: filter_remove1_other)

lemma fold_remove1_distinct:
  "distinct ys \<Longrightarrow> set (fold remove1 xs ys) = set ys - set xs"
  by (induction xs arbitrary: ys) auto

lemma fold_remove1_self: "distinct xs \<Longrightarrow> fold remove1 xs xs = []"
  using fold_remove1_distinct [of xs xs] by simp

lemma destroy_world_fields:
  "fst (destroy this w) = None"
  "click_listeners (snd (destroy this w)) =
     fold (\<lambda>element. remove1 (element, this)) (trackedElements (heap w this)) (click_listeners w)"
  "observing (snd (destroy this w)) =
     (case mutationObserver (heap w this) of
        Some ob \<Rightarrow> remove1 ob (observing w) | None \<Rightarrow> observing w)"
  "history_pushState (snd (destroy this w)) =
     (case originalPushState (heap w this) of Some f \<Rightarrow> f | None \<Rightarrow> history_pushState w)"
  "history_replaceState (snd (destroy this w)) =
     (case originalReplaceState (heap w this) of Some f \<Rightarrow> f | None \<Rightarrow> history_replaceState w)"
  "popstate_listeners (snd (destroy this w)) =
     (case popstateHandler (heap w this) of
        Some c \<Rightarrow> remove1 c (popstate_listeners w) | None \<Rightarrow> popstate_listeners w)"
  "static_instance (snd (destroy this w)) = None"
  "static_isPageTrackingSetup (snd (destroy this w)) = False"
  "next_addr (snd (destroy this w)) = next_addr w"
  "envs (snd (destroy this w)) = envs w"
  "next_env (snd (destroy this w)) = next_env w"
  "next_observer (snd (destroy this w)) = next_observer w"
  "location_href (snd (destroy this w)) = location_href w"
  "timers (snd (destroy this w)) = timers w"
  "now (snd (destroy this w)) = now w"
  by (simp_all add: destroy_def Let_def set_tracker_def split: option.splits)

lemma destroy_tracker_fields:
  "trackedElements (heap (snd (destroy this w)) this) = []"
  "mutationObserver (heap (snd (destroy this w)) this) = None"
  "popstateHandler (heap (snd (destroy this w)) this) = None"
  "isInitialized (heap (snd (destroy this w)) this) = False"
  "originalPushState (heap (snd (destroy this w)) this) = originalPushState (heap w this)"
  "originalReplaceState (heap (snd (destroy this w)) this) = originalReplaceState (heap w this)"
  "analyticsInstance (heap (snd (destroy this w)) this) = analyticsInstance (heap w this)"
  by (simp_all add: destroy_def Let_def set_tracker_def split: option.splits)

lemma destroy_other_tracker:
  "r \<noteq> this \<Longrightarrow> heap (snd (destroy this w)) r = heap w r"
  by (simp add: destroy_def Let_def set_tracker_def split: option.splits)

lemma destroy_listeners_same:
  "tracking_inv this w \<Longrightarrow> listeners_of this (snd (destroy this w)) = []"
  unfolding listeners_of_def tracking_inv_def destroy_world_fields
  by (simp only: listeners_fold_remove1_same fold_remove1_self)

lemma destroy_listeners_other:
  "r \<noteq> this \<Longrightarrow> listeners_of r (snd (destroy this w)) = listeners_of r w"
  unfolding listeners_of_def destroy_world_fields
  by (simp add: listeners_fold_remove1_other)

lemma destroy_inv: "tracking_inv r w \<Longrightarrow> tracking_inv r (snd (destroy this w))"
proof (cases "r = this")
  case True
  assume "tracking_inv r w"
  with True show ?thesis
    using destroy_listeners_same [of this w]
    by (simp add: tracking_inv_def destroy_tracker_fields)
next
  case False
  assume "tracking_inv r w"
  with False show ?thesis
    using destroy_listeners_other [of r this w]
    by (simp add: tracking_inv_def destroy_other_tracker)
qed

lemma distinct_count_le_1: "distinct xs \<Longrightarrow> count_list xs e \<le> 1"
  by (induction xs) auto

lemma attach_member_noop:
  "e \<in> set (trackedElements (heap w this)) \<Longrightarrow> attachTrackingToElements this [e] w = w"
  by (simp add: attachTrackingToElements_def attach_element_def array_includes_def)

section \<open>What the methods leave unchanged\<close>

lemma trackPageView_error:
  "fst (trackPageView pf ev doc this url source w) =
     (case url_pathname pf url of None \<Rightarrow> Some TypeError | Some p \<Rightarrow> None)"
  by (simp add: trackPageView_def split: option.splits)

lemma trackPageView_world_fields:
  "static_instance (snd (trackPageView pf ev doc this url source w)) = static_instance w"
  "static_isPageTrackingSetup (snd (trackPageView pf ev doc this url source w))
     = static_isPageTrackingSetup w"
  "next_addr (snd (trackPageView pf ev doc this url source w)) = next_addr w"
  "envs (snd (trackPageView pf ev doc this url source w)) = envs w"
  "next_env (snd (trackPageView pf ev doc this url source w)) = next_env w"
  "next_observer (snd (trackPageView pf ev doc this url source w)) = next_observer w"
  "location_href (snd (trackPageView pf ev doc this url source w)) = location_href w"
  "history_pushState (snd (trackPageView pf ev doc this url source w)) = history_pushState w"
  "history_replaceState (snd (trackPageView pf ev doc this url source w))
     = history_replaceState w"
  "popstate_listeners (snd (trackPageView pf ev doc this url source w)) = popstate_listeners w"
  "click_listeners (snd (trackPageView pf ev doc this url source w)) = click_listeners w"
  "observing (snd (trackPageView pf ev doc this url source w)) = observing w"
  "timers (snd (trackPageView pf ev doc this url source w)) = timers w"
  "now (snd (trackPageView pf ev doc this url source w)) = now w"
  by (simp_all add: trackPageView_def client_call_def split: option.splits)

lemma trackPageView_tracker_fields:
  "trackedElements (heap (snd (trackPageView pf ev doc this url source w)) r)
     = trackedElements (heap w r)"
  "mutationObserver (heap (snd (trackPageView pf ev doc this url source w)) r)
     = mutationObserver (heap w r)"
  "originalPushState (heap (snd (trackPageView pf ev doc this url source w)) r)
     = originalPushState (heap w r)"
  "originalReplaceState (heap (snd (trackPageView pf ev doc this url source w)) r)
     = originalReplaceState (heap w r)"
  "popstateHandler (heap (snd (trackPageView pf ev doc this url source w)) r)
     = popstateHandler (heap w r)"
  "isInitialized (heap (snd (trackPageView pf ev doc this url source w)) r)
     = isInitialized (heap w r)"
  by (simp_all add: trackPageView_def client_call_def split: option.splits)

lemma setupPageTracking_error:
  "fst (setupPageTracking pf ev doc this w) =
     (case url_pathname pf (location_href w) of None \<Rightarrow> Some TypeError | Some p \<Rightarrow> None)"
  using trackPageView_error [of pf ev doc this "location_href w" "''initial_load''" w]
  by (cases "trackPageView pf ev doc this (location_href w) ''initial_load'' w")
     (auto simp: setupPageTracking_def Let_def split: option.splits)

lemma setupPageTracking_flag_set:
  assumes "static_isPageTrackingSetup w"
  shows "snd (setupPageTracking pf ev doc this w)
         = snd (trackPageView pf ev doc this (location_href w) ''initial_load'' w)"
  using assms
    trackPageView_world_fields(2) [of pf ev doc this "location_href w" "''initial_load''" w]
  by (cases "trackPageView pf ev doc this (location_href w) ''initial_load'' w")
     (auto simp: setupPageTracking_def split: option.splits)

lemma setupPageTracking_flag_clear:
  assumes "\<not> static_isPageTrackingSetup w" "fst (setupPageTracking pf ev doc this w) = None"
  shows "history_pushState (snd (setupPageTracking pf ev doc this w)) = Wrapper (next_env w)"
    and "history_replaceState (snd (setupPageTracking pf ev doc this w)) = Wrapper (next_env w)"
    and "popstate_listeners (snd (setupPageTracking pf ev doc this w))
           = popstate_listeners w @ [next_env w]"
    and "static_isPageTrackingSetup (snd (setupPageTracking pf ev doc this w))"
    and "originalPushState (heap (snd (setupPageTracking pf ev doc this w)) this)
           = Some (history_pushState w)"
    and "originalReplaceState (heap (snd (setupPageTracking pf ev doc this w)) this)
           = Some (history_replaceState w)"
    and "popstateHandler (heap (snd (setupPageTracking pf ev doc this w)) this)
           = Some (next_env w)"
    and "envs (snd (setupPageTracking pf ev doc this w)) (next_env w)
           = \<lparr>currentUrl = location_href w, isTracking = True, owner = this\<rparr>"
    and "next_env (snd (setupPageTracking pf ev doc this w)) = Suc (next_env w)"
  using assms
    trackPageView_world_fields [of pf ev doc this "location_href w" "''initial_load''" w]
  by (cases "trackPageView pf ev doc this (location_href w) ''initial_load'' w";
      auto simp: setupPageTracking_def Let_def set_tracker_def split: option.splits)+

lemma on_ready_initialized:
  "on_ready pf ev doc this w = (None, w') \<Longrightarrow> isInitialized (heap w' this)"
  by (auto simp: on_ready_def Let_def set_tracker_def split: if_splits prod.splits option.splits)

lemma getInstance_fresh:
  assumes "static_instance w = None"
  shows "fst (getInstance w) = next_addr w"
    and "heap (snd (getInstance w)) (next_addr w) = new_tracker"
    and "static_instance (snd (getInstance w)) = Some (next_addr w)"
    and "location_href (snd (getInstance w)) = location_href w"
  using assms by (simp_all add: getInstance_def Let_def set_tracker_def)

lemma initialize_pending:
  assumes "\<not> isInitialized (heap w this)"
    and "truthy (RUDDERSTACK_KEY ev)" "truthy (RUDDERSTACK_URL ev)"
  shows "fst (snd (initialize ev this w)) = Pending"
    and "\<not> isInitialized (heap (snd (snd (initialize ev this w))) this)"
    and "location_href (snd (snd (initialize ev this w))) = location_href w"
  using assms by (simp_all add: initialize_def client_call_def)

lemma on_ready_succeeds:
  assumes "url_pathname pf (location_href w) \<noteq> None"
  shows "fst (on_ready pf ev doc this w) = None"
    and "isInitialized (heap (snd (on_ready pf ev doc this w)) this)"
proof -
  have e: "fst (setupPageTracking pf ev doc this w) = None"
    using assms by (auto simp: setupPageTracking_error)
  then show "fst (on_ready pf ev doc this w) = None"
    by (cases "setupPageTracking pf ev doc this w") (simp add: on_ready_def Let_def)
  then have "on_ready pf ev doc this w = (None, snd (on_ready pf ev doc this w))"
    by (simp add: prod_eq_iff)
  then show "isInitialized (heap (snd (on_ready pf ev doc this w)) this)"
    by (rule on_ready_initialized)
qed

lemma not_in_remove1: "distinct xs \<Longrightarrow> x \<notin> set (remove1 x xs)"
  by simp

lemma fold_same: "(\<And>x. x \<in> set xs \<Longrightarrow> f x s = s) \<Longrightarrow> fold f xs s = s"
  by (induction xs) simp_all

lemma destroy_heap_this:
  "heap (snd (destroy this w)) this =
     (heap w this)\<lparr>trackedElements := [], mutationObserver := None, popstateHandler := None,
                    isInitialized := False\<rparr>"
  by (rule tracker.equality) (simp_all add: destroy_tracker_fields)

lemma destroy_heap:
  "heap (snd (destroy this w)) =
     (heap w)(this := (heap w this)\<lparr>trackedElements := [], mutationObserver := None,
                                     popstateHandler := None, isInitialized := False\<rparr>)"
  by (rule ext) (simp add: destroy_heap_this destroy_other_tracker)

lemma destroy_idem: "snd (destroy this (snd (destroy this w))) = snd (destroy this w)"
  by (rule world.equality)
     (simp_all add: destroy_world_fields destroy_tracker_fields destroy_heap
        split: option.splits)

section \<open>Initialization\<close>

text \<open>
  Claim C2, as the specification states it, fails for a second call that comes before the
  client is ready. In the example, \<open>initialize\<close> on the fresh tracker calls
  \<open>load\<close> and \<open>ready\<close> and waits. The tracker is not initialized until the
  callback has run, so a second call passes the guard, calls \<open>load\<close> and
  \<open>ready\<close> again and waits as well: it does not return \<open>false\<close>.
\<close>

theorem initialize_twice_counterexample:
  "\<not> isInitialized (heap fresh_world 0)
   \<and> fst (snd (initialize example_env 0 fresh_world)) = Pending
   \<and> fst (snd (initialize example_env 0 (snd (snd (initialize example_env 0 fresh_world)))))
       = Pending
   \<and> analyticsInstance
        (heap (snd (snd (initialize example_env 0
                           (snd (snd (initialize example_env 0 fresh_world)))))) 0)
       = [Load ''write-key'' ''https://dataplane.example.com'', Ready,
          Load ''write-key'' ''https://dataplane.example.com'', Ready]"
  by (simp add: initialize_def fresh_world_fields new_tracker_def example_env_def truthy_def
        client_call_def)

text \<open>
  Claim C2, amended. \<open>initialize\<close> raises nothing. It returns \<open>false\<close>, and
  changes nothing, when the tracker is initialized and when the write key or the endpoint
  URL is absent (or empty). A second call made once the first has settled returns
  \<open>false\<close> and leaves the state as it is, listeners and observers included: the first
  call has settled when it returned \<open>false\<close> at once, and when it waited for the
  client and the callback of \<open>ready\<close> has run to its end. A second run of that
  callback changes nothing either.
\<close>

theorem initialize_fails_softly:
  "fst (initialize ev this w) = None
   \<and> (isInitialized (heap w this) \<longrightarrow> initialize ev this w = (None, Resolved False, w))
   \<and> (\<not> truthy (RUDDERSTACK_KEY ev) \<or> \<not> truthy (RUDDERSTACK_URL ev) \<longrightarrow>
        initialize ev this w = (None, Resolved False, w))
   \<and> (initialize ev this w = (None, Resolved b, w1) \<longrightarrow>
        initialize ev this w1 = (None, Resolved False, w1))
   \<and> (initialize ev this w = (None, Pending, w1) \<and> on_ready pf ev doc this w1 = (None, w2) \<longrightarrow>
        initialize ev this w2 = (None, Resolved False, w2)
        \<and> on_ready pf ev doc this w2 = (None, w2))"
proof -
  have "isInitialized (heap w2 this)" if "on_ready pf ev doc this w1 = (None, w2)"
    using that by (rule on_ready_initialized)
  then show ?thesis
    by (auto simp: initialize_def on_ready_def)
qed

theorem initialize_fails_softly_witness:
  "initialize example_env 0 started_world = (None, Resolved False, started_world)
   \<and> on_ready example_platform example_env example_document 0 started_world
       = (None, started_world)
   \<and> initialize (example_env\<lparr>RUDDERSTACK_URL := None\<rparr>) 0 fresh_world
       = (None, Resolved False, fresh_world)"
  using first_call_pending first_call_ready
    initialize_fails_softly [of example_env 0 fresh_world False
      "snd (snd (initialize example_env 0 fresh_world))"
      example_platform example_document started_world]
    initialize_fails_softly [of "example_env\<lparr>RUDDERSTACK_URL := None\<rparr>" 0 fresh_world]
  by (simp add: truthy_def)

text \<open>
  Two calls of \<open>initialize\<close> with no readiness in between, on a tracker that is not
  initialized and with both required variables set: the second call waits for the client as
  the first does, so it does not return \<open>false\<close>. Once the callback of the first call has
  run, the callback of the second changes nothing: the listeners, the observer and the
  interception are installed once.
\<close>

theorem initialize_while_pending:
  "\<not> isInitialized (heap w this) \<Longrightarrow>
   truthy (RUDDERSTACK_KEY ev) \<Longrightarrow> truthy (RUDDERSTACK_URL ev) \<Longrightarrow>
     fst (snd (initialize ev this w)) = Pending
   \<and> fst (snd (initialize ev this (snd (snd (initialize ev this w))))) = Pending
   \<and> (on_ready pf ev doc this (snd (snd (initialize ev this (snd (snd (initialize ev this w))))))
          = (None, w') \<longrightarrow>
        on_ready pf ev doc this w' = (None, w'))"
proof -
  assume a: "\<not> isInitialized (heap w this)" "truthy (RUDDERSTACK_KEY ev)"
    "truthy (RUDDERSTACK_URL ev)"
  have "isInitialized (heap w' this)"
    if "on_ready pf ev doc this (snd (snd (initialize ev this (snd (snd (initialize ev this w))))))
          = (None, w')"
    using that by (rule on_ready_initialized)
  then show ?thesis
    using a by (auto simp: initialize_def client_call_def on_ready_def)
qed

theorem initialize_while_pending_witness:
  "fst (snd (initialize example_env 0 fresh_world)) = Pending
   \<and> fst (snd (initialize example_env 0 (snd (snd (initialize example_env 0 fresh_world)))))
       = Pending"
proof -
  have "\<not> isInitialized (heap fresh_world 0)" "truthy (RUDDERSTACK_KEY example_env)"
    "truthy (RUDDERSTACK_URL example_env)"
    by (simp_all add: fresh_world_fields new_tracker_def example_env_def truthy_def)
  from initialize_while_pending [OF this] show ?thesis
    by blast
qed

section \<open>The click handler\<close>

lemma filter_eq_replicate: "filter (\<lambda>l. l = x) ls = replicate (count_list ls x) x"
  by (induction ls) auto

lemma count_list_listeners:
  "count_list (map fst (filter (\<lambda>l. snd l = this) ls)) e = count_list ls (e, this)"
  by (induction ls) auto

lemma distinct_count_1: "distinct xs \<Longrightarrow> x \<in> set xs \<Longrightarrow> count_list xs x = 1"
  by (induction xs) auto

lemma only_listener:
  assumes inv: "tracking_inv this w"
    and mem: "element \<in> set (trackedElements (heap w this))"
    and own: "\<forall>l \<in> set (click_listeners w). fst l = element \<longrightarrow> snd l = this"
  shows "filter (\<lambda>l. fst l = element) (click_listeners w) = [(element, this)]"
proof -
  have "filter (\<lambda>l. fst l = element) (click_listeners w)
        = filter (\<lambda>l. l = (element, this)) (click_listeners w)"
    using own by (intro filter_cong) (auto simp: prod_eq_iff)
  also have "\<dots> = replicate (count_list (click_listeners w) (element, this)) (element, this)"
    by (rule filter_eq_replicate)
  also have "count_list (click_listeners w) (element, this)
             = count_list (listeners_of this w) element"
    by (simp add: listeners_of_def count_list_listeners)
  also have "\<dots> = 1"
    using inv mem by (simp add: tracking_inv_def distinct_count_1)
  finally show ?thesis by simp
qed

text \<open>
  Claim C4, as the specification states it, fails on two clicks of the example. Element 2 is
  tracked and its properties attribute is not JSON: the handler ends with the error and the
  click makes no \<open>track\<close> call. Element 3 is tracked and its event-name attribute is
  present with the empty string as value: the event name of the call is
  \<open>Element Clicked\<close>, not that value.
\<close>

theorem trackingEvent_every_click_counterexample:
  "2 \<in> set (trackedElements (heap started_world 0))
   \<and> getAttribute example_document 2 ''data-rudderstack-props'' = Some ''{plan''
   \<and> JSON_parse example_platform ''{plan'' = None
   \<and> trackingEvent example_platform example_env example_document 0 2 started_world
       = (Some SyntaxError, started_world)
   \<and> click example_platform example_env example_document 2 started_world = started_world
   \<and> 3 \<in> set (trackedElements (heap started_world 0))
   \<and> getAttribute example_document 3 ''data-rudderstack-event'' = Some []
   \<and> trackingEvent example_platform example_env example_document 0 3 started_world
       = (None, client_call 0 (Track ''Element Clicked'' (common_properties example_env))
                  started_world)
   \<and> analyticsInstance
        (heap (click example_platform example_env example_document 3 started_world) 0)
       = analyticsInstance (heap started_world 0)
         @ [Track ''Element Clicked'' (common_properties example_env)]"
  by (simp add: started_world_fields click_def trackingEvent_def or_default_def truthy_def
        example_document_def example_platform_def client_call_def)

text \<open>
  Claim C4, amended. When the text to parse (the properties attribute, or \<open>{}\<close> when
  the attribute is absent or empty) is accepted by \<open>JSON.parse\<close>, the handler raises
  nothing and makes exactly one \<open>track\<close> call: its event name is the value of the
  event-name attribute, or \<open>Element Clicked\<close> when that attribute is absent or empty, and
  its properties are the common properties overridden by the parsed ones. With no
  properties attribute, and \<open>{}\<close> parsed as the empty object, they are the common
  properties. A click on a tracked element whose only click listeners are those of the
  tracker runs the handler exactly once.
\<close>

theorem trackingEvent_click:
  "getAttribute doc element ''data-rudderstack-event'' = event_attr \<Longrightarrow>
   getAttribute doc element ''data-rudderstack-props'' = props_attr \<Longrightarrow>
   name = (if event_attr = None \<or> event_attr = Some [] then ''Element Clicked''
           else the event_attr) \<Longrightarrow>
   JSON_parse pf (if props_attr = None \<or> props_attr = Some [] then ''{}'' else the props_attr)
     = Some properties \<Longrightarrow>
     trackingEvent pf ev doc this element w
       = (None, client_call this (Track name (common_properties ev ++ properties)) w)
   \<and> analyticsInstance (heap (snd (trackingEvent pf ev doc this element w)) this)
       = analyticsInstance (heap w this) @ [Track name (common_properties ev ++ properties)]
   \<and> (tracking_inv this w \<and> element \<in> set (trackedElements (heap w this))
        \<and> (\<forall>l \<in> set (click_listeners w). fst l = element \<longrightarrow> snd l = this) \<longrightarrow>
        click pf ev doc element w = snd (trackingEvent pf ev doc this element w))
   \<and> ((props_attr = None \<or> props_attr = Some []) \<and> JSON_parse pf ''{}'' = Some Map.empty \<longrightarrow>
        common_properties ev ++ properties = common_properties ev)"
proof -
  assume a: "getAttribute doc element ''data-rudderstack-event'' = event_attr"
    "getAttribute doc element ''data-rudderstack-props'' = props_attr"
    "name = (if event_attr = None \<or> event_attr = Some [] then ''Element Clicked''
             else the event_attr)"
    "JSON_parse pf (if props_attr = None \<or> props_attr = Some [] then ''{}'' else the props_attr)
       = Some properties"
  have n: "or_default event_attr ''Element Clicked'' = name"
    using a(3) by (cases event_attr) (auto simp: or_default_def truthy_def)
  have p: "or_default props_attr ''{}''
           = (if props_attr = None \<or> props_attr = Some [] then ''{}'' else the props_attr)"
    by (cases props_attr) (auto simp: or_default_def truthy_def)
  have h: "trackingEvent pf ev doc this element w
       = (None, client_call this (Track name (common_properties ev ++ properties)) w)"
    using a(1,2,4) n p by (simp add: trackingEvent_def Let_def)
  have c: "click pf ev doc element w = snd (trackingEvent pf ev doc this element w)"
    if "tracking_inv this w" "element \<in> set (trackedElements (heap w this))"
      "\<forall>l \<in> set (click_listeners w). fst l = element \<longrightarrow> snd l = this"
    using only_listener [OF that] by (simp add: click_def)
  have e: "common_properties ev ++ properties = common_properties ev"
    if "props_attr = None \<or> props_attr = Some []" "JSON_parse pf ''{}'' = Some Map.empty"
    using that a(4) by auto
  from h c e show ?thesis
    by (simp add: client_call_def)
qed

theorem trackingEvent_click_witness:
  "click example_platform example_env example_document 1 started_world
     = client_call 0
         (Track ''Buy Clicked'' (common_properties example_env ++ [''plan'' \<mapsto> JSString ''pro'']))
         started_world
   \<and> click example_platform example_env example_document 3 started_world
     = client_call 0 (Track ''Element Clicked'' (common_properties example_env)) started_world"
proof -
  have inv: "tracking_inv 0 started_world"
    by (simp add: tracking_inv_def listeners_of_def started_world_fields)
  have own: "\<forall>l \<in> set (click_listeners started_world). fst l = e \<longrightarrow> snd l = 0" for e
    by (simp add: started_world_fields)
  have mem: "1 \<in> set (trackedElements (heap started_world 0))"
    "3 \<in> set (trackedElements (heap started_world 0))"
    by (simp_all add: started_world_fields)
  have attrs:
    "getAttribute example_document 1 ''data-rudderstack-event'' = Some ''Buy Clicked''"
    "getAttribute example_document 3 ''data-rudderstack-event'' = Some []"
    "getAttribute example_document 3 ''data-rudderstack-props'' = None"
    by (simp_all add: example_document_def)
  have parse1: "JSON_parse example_platform
        (if getAttribute example_document 1 ''data-rudderstack-props'' = None
            \<or> getAttribute example_document 1 ''data-rudderstack-props'' = Some []
         then ''{}'' else the (getAttribute example_document 1 ''data-rudderstack-props''))
      = Some [''plan'' \<mapsto> JSString ''pro'']"
    by (simp add: example_document_def example_platform_def)
  have parse3: "JSON_parse example_platform
        (if (None :: string option) = None \<or> None = Some [] then ''{}'' else the None)
      = Some Map.empty"
    by (simp add: example_platform_def)
  from inv own mem attrs
    trackingEvent_click [OF attrs(1) refl refl parse1, of example_env 0 started_world]
    trackingEvent_click [OF attrs(2) attrs(3) refl parse3, of example_env 0 started_world]
  show ?thesis
    by simp
qed

text \<open>
  Claim C8. When the properties attribute of the clicked element holds a text that
  \<open>JSON.parse\<close> rejects, the handler ends with the \<open>SyntaxError\<close>: it does not catch
  it, it does not go on with an empty object, and it makes no \<open>track\<close> call. The state
  is the same after the click as before.
\<close>

theorem trackingEvent_malformed_json:
  "getAttribute doc element ''data-rudderstack-props'' = Some text \<Longrightarrow> text \<noteq> [] \<Longrightarrow>
   JSON_parse pf text = None \<Longrightarrow>
     trackingEvent pf ev doc this element w = (Some SyntaxError, w)
     \<and> click pf ev doc element w = w"
proof -
  assume a: "getAttribute doc element ''data-rudderstack-props'' = Some text" "text \<noteq> []"
    "JSON_parse pf text = None"
  have h: "trackingEvent pf ev doc r element v = (Some SyntaxError, v)" for r v
    using a by (simp add: trackingEvent_def or_default_def truthy_def)
  have "click pf ev doc element w = w"
    unfolding click_def by (rule fold_same) (simp add: h)
  with h show ?thesis by simp
qed

theorem trackingEvent_malformed_json_witness:
  "trackingEvent example_platform example_env example_document 0 2 started_world
     = (Some SyntaxError, started_world)
   \<and> click example_platform example_env example_document 2 started_world = started_world"
  using trackingEvent_malformed_json [of example_document 2 "''{plan''" example_platform
          example_env 0 started_world]
  by (simp add: example_document_def example_platform_def)

section \<open>Teardown\<close>

text \<open>
  Claim C5. \<open>destroy\<close> on a tracker whose registrations satisfy the invariant, in a state
  where no observer and no popstate handler is registered twice: no click listener of the
  tracker is left and the membership set is empty; the observer is disconnected; the two
  history functions are the saved ones, where they were saved; the popstate handler is
  removed, where there was one; the initialization flag and the singleton reference are
  cleared. The next \<open>getInstance\<close> allocates a new tracker, with the fields of a new
  object, and with the two required variables set its \<open>initialize\<close> waits for the client
  and the callback of \<open>ready\<close> initializes it.
\<close>

theorem destroy_full_teardown:
  "tracking_inv this w \<Longrightarrow> distinct (observing w) \<Longrightarrow> distinct (popstate_listeners w) \<Longrightarrow>
   (let w' = snd (destroy this w) in
      fst (destroy this w) = None
    \<and> listeners_of this w' = [] \<and> trackedElements (heap w' this) = []
    \<and> mutationObserver (heap w' this) = None
    \<and> (mutationObserver (heap w this) = Some ob \<longrightarrow> ob \<notin> set (observing w'))
    \<and> (originalPushState (heap w this) = Some f \<longrightarrow> history_pushState w' = f)
    \<and> (originalReplaceState (heap w this) = Some g \<longrightarrow> history_replaceState w' = g)
    \<and> popstateHandler (heap w' this) = None
    \<and> (popstateHandler (heap w this) = Some c \<longrightarrow> c \<notin> set (popstate_listeners w'))
    \<and> \<not> isInitialized (heap w' this)
    \<and> static_instance w' = None
    \<and> (let r = fst (getInstance w'); w2 = snd (getInstance w') in
          r = next_addr w \<and> (this < next_addr w \<longrightarrow> r \<noteq> this)
        \<and> heap w2 r = new_tracker \<and> static_instance w2 = Some r
        \<and> (truthy (RUDDERSTACK_KEY ev) \<and> truthy (RUDDERSTACK_URL ev) \<longrightarrow>
             fst (initialize ev r w2) = None
           \<and> fst (snd (initialize ev r w2)) = Pending
           \<and> (let w3 = snd (snd (initialize ev r w2)) in
                url_pathname pf (location_href w) \<noteq> None \<longrightarrow>
                  fst (on_ready pf ev doc r w3) = None
                \<and> isInitialized (heap (snd (on_ready pf ev doc r w3)) r)))))"
proof -
  assume inv: "tracking_inv this w" and d1: "distinct (observing w)"
    and d2: "distinct (popstate_listeners w)"
  define w' where "w' = snd (destroy this w)"
  define w2 where "w2 = snd (getInstance w')"
  define w3 where "w3 = snd (snd (initialize ev (next_addr w) w2))"
  have none: "static_instance w' = None" and na: "next_addr w' = next_addr w"
    and loc: "location_href w' = location_href w"
    by (simp_all add: w'_def destroy_world_fields)
  have gi: "fst (getInstance w') = next_addr w" "heap w2 (next_addr w) = new_tracker"
      "static_instance w2 = Some (next_addr w)" "location_href w2 = location_href w"
    using getInstance_fresh [OF none] by (simp_all add: w2_def na loc)
  have fresh: "\<not> isInitialized (heap w2 (next_addr w))"
    by (simp add: gi new_tracker_def)
  have listeners: "listeners_of this w' = []"
    unfolding w'_def using inv by (rule destroy_listeners_same)
  have teardown:
      "fst (destroy this w) = None" "trackedElements (heap w' this) = []"
      "mutationObserver (heap w' this) = None" "popstateHandler (heap w' this) = None"
      "\<not> isInitialized (heap w' this)"
      "mutationObserver (heap w this) = Some ob \<longrightarrow> ob \<notin> set (observing w')"
      "originalPushState (heap w this) = Some f \<longrightarrow> history_pushState w' = f"
      "originalReplaceState (heap w this) = Some g \<longrightarrow> history_replaceState w' = g"
      "popstateHandler (heap w this) = Some c \<longrightarrow> c \<notin> set (popstate_listeners w')"
    using d1 d2 by (simp_all add: w'_def destroy_world_fields destroy_tracker_fields)
  have again: "fst (initialize ev (next_addr w) w2) = None"
      "fst (snd (initialize ev (next_addr w) w2)) = Pending"
      "url_pathname pf (location_href w) \<noteq> None \<longrightarrow>
         fst (on_ready pf ev doc (next_addr w) w3) = None
         \<and> isInitialized (heap (snd (on_ready pf ev doc (next_addr w) w3)) (next_addr w))"
    if "truthy (RUDDERSTACK_KEY ev)" "truthy (RUDDERSTACK_URL ev)"
  proof -
    show "fst (initialize ev (next_addr w) w2) = None"
      by (simp add: initialize_def)
    show "fst (snd (initialize ev (next_addr w) w2)) = Pending"
      using fresh that by (rule initialize_pending)
    have "location_href w3 = location_href w"
      using initialize_pending(3) [OF fresh that] by (simp add: w3_def gi)
    then show "url_pathname pf (location_href w) \<noteq> None \<longrightarrow>
         fst (on_ready pf ev doc (next_addr w) w3) = None
         \<and> isInitialized (heap (snd (on_ready pf ev doc (next_addr w) w3)) (next_addr w))"
      using on_ready_succeeds [of pf w3 ev doc "next_addr w"] by simp
  qed
  show ?thesis
    unfolding Let_def w'_def [symmetric] gi(1) w2_def [symmetric] w3_def [symmetric]
    using none gi(2,3) listeners teardown again by simp
qed

theorem destroy_full_teardown_witness:
  "listeners_of 0 (snd (destroy 0 started_world)) = []
   \<and> 0 \<notin> set (observing (snd (destroy 0 started_world)))
   \<and> history_pushState (snd (destroy 0 started_world)) = Native
   \<and> history_replaceState (snd (destroy 0 started_world)) = Native
   \<and> 0 \<notin> set (popstate_listeners (snd (destroy 0 started_world)))
   \<and> static_instance (snd (destroy 0 started_world)) = None
   \<and> fst (getInstance (snd (destroy 0 started_world))) = 1
   \<and> fst (snd (initialize example_env 1 (snd (getInstance (snd (destroy 0 started_world))))))
       = Pending
   \<and> isInitialized
        (heap (snd (on_ready example_platform example_env example_document 1
                     (snd (snd (initialize example_env 1
                                  (snd (getInstance (snd (destroy 0 started_world))))))))) 1)"
proof -
  have inv: "tracking_inv 0 started_world"
    by (simp add: tracking_inv_def listeners_of_def started_world_fields)
  have d: "distinct (observing started_world)" "distinct (popstate_listeners started_world)"
    by (simp_all add: started_world_fields)
  have u: "url_pathname example_platform (location_href started_world) \<noteq> None"
    by (simp add: started_world_fields example_platform_def)
  have t: "truthy (RUDDERSTACK_KEY example_env)" "truthy (RUDDERSTACK_URL example_env)"
    by (simp_all add: example_env_def truthy_def)
  from u t destroy_full_teardown [OF inv d, of 0 Native Native 0 example_env example_platform
      example_document]
  show ?thesis
    by (auto simp add: Let_def started_world_fields)
qed

text \<open>
  Claim C9. \<open>destroy\<close> raises nothing, and a second \<open>destroy\<close> right after the first
  raises nothing and leaves the state exactly as the first left it.
\<close>

theorem destroy_twice:
  "fst (destroy this w) = None
   \<and> destroy this (snd (destroy this w)) = (None, snd (destroy this w))"
  using destroy_idem [of this w] destroy_world_fields(1) [of this "snd (destroy this w)"]
  by (simp add: destroy_world_fields prod_eq_iff)

theorem destroy_twice_witness:
  "destroy 0 (snd (destroy 0 started_world)) = (None, snd (destroy 0 started_world))"
  using destroy_twice [of 0 started_world] by simp

text \<open>
  Claim C10. \<open>destroy\<close> on a tracker that has saved no history function and has no
  popstate handler raises nothing and leaves \<open>history.pushState\<close>,
  \<open>history.replaceState\<close> and the popstate listeners as they are. A tracker that
  \<open>getInstance\<close> has just created is such a tracker.
\<close>

theorem destroy_never_initialized:
  "(originalPushState (heap w this) = None \<and> originalReplaceState (heap w this) = None
      \<and> popstateHandler (heap w this) = None \<longrightarrow>
      fst (destroy this w) = None
      \<and> history_pushState (snd (destroy this w)) = history_pushState w
      \<and> history_replaceState (snd (destroy this w)) = history_replaceState w
      \<and> popstate_listeners (snd (destroy this w)) = popstate_listeners w)
   \<and> (static_instance w = None \<longrightarrow>
        originalPushState (heap (snd (getInstance w)) (fst (getInstance w))) = None
        \<and> originalReplaceState (heap (snd (getInstance w)) (fst (getInstance w))) = None
        \<and> popstateHandler (heap (snd (getInstance w)) (fst (getInstance w))) = None
        \<and> fst (destroy (fst (getInstance w)) (snd (getInstance w))) = None
        \<and> history_pushState (snd (destroy (fst (getInstance w)) (snd (getInstance w))))
            = history_pushState w
        \<and> history_replaceState (snd (destroy (fst (getInstance w)) (snd (getInstance w))))
            = history_replaceState w
        \<and> popstate_listeners (snd (destroy (fst (getInstance w)) (snd (getInstance w))))
            = popstate_listeners w)"
  by (simp add: destroy_world_fields getInstance_def Let_def set_tracker_def new_tracker_def)

theorem destroy_never_initialized_witness:
  "fst (destroy 0 fresh_world) = None
   \<and> history_pushState (snd (destroy 0 fresh_world)) = history_pushState fresh_world
   \<and> history_replaceState (snd (destroy 0 fresh_world)) = history_replaceState fresh_world
   \<and> popstate_listeners (snd (destroy 0 fresh_world)) = popstate_listeners fresh_world
   \<and> history_pushState
        (snd (destroy (fst (getInstance (initial_world ''https://example.com/'' :: (nat, unit) world)))
                (snd (getInstance (initial_world ''https://example.com/'' :: (nat, unit) world)))))
      = Native"
proof -
  have i: "static_instance (initial_world ''https://example.com/'' :: (nat, unit) world) = None"
    "history_pushState (initial_world ''https://example.com/'' :: (nat, unit) world) = Native"
    by (simp_all add: initial_world_def)
  from i destroy_never_initialized [of fresh_world 0]
    destroy_never_initialized [of "initial_world ''https://example.com/'' :: (nat, unit) world"]
  show ?thesis
    by (simp add: fresh_world_fields new_tracker_def)
qed

section \<open>The page-tracking flag\<close>

text \<open>
  Claim C6, as the specification states it, fails: in the example, after \<open>destroy\<close> the
  class-level flag is cleared, the history functions are the browser's again and no popstate
  handler is registered; the next \<open>rudderstackTracking()\<close> installs a new wrapper and a
  new popstate handler.
\<close>

theorem page_tracking_flag_reset_counterexample:
  "static_isPageTrackingSetup started_world
   \<and> history_pushState started_world = Wrapper 0
   \<and> popstate_listeners started_world = [0]
   \<and> \<not> static_isPageTrackingSetup (snd (destroy 0 started_world))
   \<and> history_pushState (snd (destroy 0 started_world)) = Native
   \<and> popstate_listeners (snd (destroy 0 started_world)) = []
   \<and> history_pushState restarted_world = Wrapper 1
   \<and> history_replaceState restarted_world = Wrapper 1
   \<and> popstate_listeners restarted_world = [1]"
  using destroyed_world_fields
  by (simp add: started_world_fields restarted_world_fields destroyed_world_def)

lemma attachTrackingToElements_navigation:
  "history_pushState (attachTrackingToElements this es w) = history_pushState w"
  "history_replaceState (attachTrackingToElements this es w) = history_replaceState w"
  "popstate_listeners (attachTrackingToElements this es w) = popstate_listeners w"
  "static_isPageTrackingSetup (attachTrackingToElements this es w)
     = static_isPageTrackingSetup w"
  "originalPushState (heap (attachTrackingToElements this es w) r)
     = originalPushState (heap w r)"
  "originalReplaceState (heap (attachTrackingToElements this es w) r)
     = originalReplaceState (heap w r)"
  "popstateHandler (heap (attachTrackingToElements this es w) r) = popstateHandler (heap w r)"
  unfolding attachTrackingToElements_def
  by (induction es arbitrary: w; simp add: attach_element_def set_tracker_def)+

lemma setupObserver_navigation:
  "history_pushState (setupObserver doc this w) = history_pushState w"
  "history_replaceState (setupObserver doc this w) = history_replaceState w"
  "popstate_listeners (setupObserver doc this w) = popstate_listeners w"
  "static_isPageTrackingSetup (setupObserver doc this w) = static_isPageTrackingSetup w"
  "originalPushState (heap (setupObserver doc this w) r) = originalPushState (heap w r)"
  "originalReplaceState (heap (setupObserver doc this w) r) = originalReplaceState (heap w r)"
  "popstateHandler (heap (setupObserver doc this w) r) = popstateHandler (heap w r)"
  by (simp_all add: setupObserver_def Let_def set_tracker_def attachTrackingToElements_navigation)

lemma on_ready_navigation:
  assumes "\<not> isInitialized (heap w r)"
  shows "history_pushState (snd (on_ready pf ev doc r w))
           = history_pushState (snd (setupPageTracking pf ev doc r w))"
    and "history_replaceState (snd (on_ready pf ev doc r w))
           = history_replaceState (snd (setupPageTracking pf ev doc r w))"
    and "popstate_listeners (snd (on_ready pf ev doc r w))
           = popstate_listeners (snd (setupPageTracking pf ev doc r w))"
    and "static_isPageTrackingSetup (snd (on_ready pf ev doc r w))
           = static_isPageTrackingSetup (snd (setupPageTracking pf ev doc r w))"
    and "originalPushState (heap (snd (on_ready pf ev doc r w)) r)
           = originalPushState (heap (snd (setupPageTracking pf ev doc r w)) r)"
    and "originalReplaceState (heap (snd (on_ready pf ev doc r w)) r)
           = originalReplaceState (heap (snd (setupPageTracking pf ev doc r w)) r)"
    and "popstateHandler (heap (snd (on_ready pf ev doc r w)) r)
           = popstateHandler (heap (snd (setupPageTracking pf ev doc r w)) r)"
    and "fst (on_ready pf ev doc r w) = fst (setupPageTracking pf ev doc r w)"
  using assms
  by (cases "setupPageTracking pf ev doc r w";
      auto simp: on_ready_def Let_def set_tracker_def setupObserver_navigation
        split: option.splits)+

text \<open>
  Claim C6, amended. \<open>destroy\<close>, run by any tracker, clears the class-level flag. It
  puts back the history functions that its own tracker saved and removes the popstate
  handler of its own tracker; when its tracker saved none, the history functions and the
  popstate listeners stay as they are. \<open>getInstance\<close> and \<open>initialize\<close> leave
  the flag as it is. While the flag is set, \<open>setupPageTracking\<close>, and so the callback
  of \<open>ready\<close>, on whichever tracker, installs nothing: the history functions, the
  popstate listeners and the saved functions of the tracker stay as they are. When the flag
  is clear and the first page view raises nothing, \<open>setupPageTracking\<close> saves the
  current history functions, installs a new wrapper for both and a new popstate handler, and
  sets the flag; so does the callback of \<open>ready\<close> on a tracker that is not
  initialized. So the flag does not outlive a \<open>destroy\<close>, and the first
  initialization after a \<open>destroy\<close> installs an interception, around the history
  functions that are current at that moment.
\<close>

theorem page_tracking_flag:
  "\<not> static_isPageTrackingSetup (snd (destroy this w))
   \<and> history_pushState (snd (destroy this w)) =
       (case originalPushState (heap w this) of Some f \<Rightarrow> f | None \<Rightarrow> history_pushState w)
   \<and> history_replaceState (snd (destroy this w)) =
       (case originalReplaceState (heap w this) of
          Some f \<Rightarrow> f | None \<Rightarrow> history_replaceState w)
   \<and> popstate_listeners (snd (destroy this w)) =
       (case popstateHandler (heap w this) of
          Some c \<Rightarrow> remove1 c (popstate_listeners w) | None \<Rightarrow> popstate_listeners w)
   \<and> static_isPageTrackingSetup (snd (getInstance w)) = static_isPageTrackingSetup w
   \<and> static_isPageTrackingSetup (snd (snd (initialize ev r w))) = static_isPageTrackingSetup w
   \<and> (static_isPageTrackingSetup w \<longrightarrow>
        history_pushState (snd (setupPageTracking pf ev doc r w)) = history_pushState w
      \<and> history_replaceState (snd (setupPageTracking pf ev doc r w)) = history_replaceState w
      \<and> popstate_listeners (snd (setupPageTracking pf ev doc r w)) = popstate_listeners w
      \<and> originalPushState (heap (snd (setupPageTracking pf ev doc r w)) r)
          = originalPushState (heap w r)
      \<and> originalReplaceState (heap (snd (setupPageTracking pf ev doc r w)) r)
          = originalReplaceState (heap w r)
      \<and> popstateHandler (heap (snd (setupPageTracking pf ev doc r w)) r)
          = popstateHandler (heap w r)
      \<and> static_isPageTrackingSetup (snd (setupPageTracking pf ev doc r w))
      \<and> history_pushState (snd (on_ready pf ev doc r w)) = history_pushState w
      \<and> history_replaceState (snd (on_ready pf ev doc r w)) = history_replaceState w
      \<and> popstate_listeners (snd (on_ready pf ev doc r w)) = popstate_listeners w)
   \<and> (\<not> static_isPageTrackingSetup w \<and> fst (setupPageTracking pf ev doc r w) = None \<longrightarrow>
        history_pushState (snd (setupPageTracking pf ev doc r w)) = Wrapper (next_env w)
      \<and> history_replaceState (snd (setupPageTracking pf ev doc r w)) = Wrapper (next_env w)
      \<and> popstate_listeners (snd (setupPageTracking pf ev doc r w))
          = popstate_listeners w @ [next_env w]
      \<and> originalPushState (heap (snd (setupPageTracking pf ev doc r w)) r)
          = Some (history_pushState w)
      \<and> originalReplaceState (heap (snd (setupPageTracking pf ev doc r w)) r)
          = Some (history_replaceState w)
      \<and> popstateHandler (heap (snd (setupPageTracking pf ev doc r w)) r) = Some (next_env w)
      \<and> static_isPageTrackingSetup (snd (setupPageTracking pf ev doc r w)))
   \<and> (\<not> static_isPageTrackingSetup w \<and> \<not> isInitialized (heap w r)
        \<and> fst (on_ready pf ev doc r w) = None \<longrightarrow>
        history_pushState (snd (on_ready pf ev doc r w)) = Wrapper (next_env w)
      \<and> history_replaceState (snd (on_ready pf ev doc r w)) = Wrapper (next_env w)
      \<and> popstate_listeners (snd (on_ready pf ev doc r w)) = popstate_listeners w @ [next_env w]
      \<and> originalPushState (heap (snd (on_ready pf ev doc r w)) r) = Some (history_pushState w)
      \<and> originalReplaceState (heap (snd (on_ready pf ev doc r w)) r)
          = Some (history_replaceState w)
      \<and> popstateHandler (heap (snd (on_ready pf ev doc r w)) r) = Some (next_env w)
      \<and> static_isPageTrackingSetup (snd (on_ready pf ev doc r w)))"
proof -
  have d: "\<not> static_isPageTrackingSetup (snd (destroy this w))"
    "history_pushState (snd (destroy this w)) =
       (case originalPushState (heap w this) of Some f \<Rightarrow> f | None \<Rightarrow> history_pushState w)"
    "history_replaceState (snd (destroy this w)) =
       (case originalReplaceState (heap w this) of
          Some f \<Rightarrow> f | None \<Rightarrow> history_replaceState w)"
    "popstate_listeners (snd (destroy this w)) =
       (case popstateHandler (heap w this) of
          Some c \<Rightarrow> remove1 c (popstate_listeners w) | None \<Rightarrow> popstate_listeners w)"
    by (simp_all add: destroy_world_fields)
  have g: "static_isPageTrackingSetup (snd (getInstance w)) = static_isPageTrackingSetup w"
    "static_isPageTrackingSetup (snd (snd (initialize ev r w))) = static_isPageTrackingSetup w"
    by (simp_all add: getInstance_def initialize_def client_call_def set_tracker_def Let_def
          split: option.splits)
  have set: "static_isPageTrackingSetup w \<Longrightarrow> snd (setupPageTracking pf ev doc r w)
         = snd (trackPageView pf ev doc r (location_href w) ''initial_load'' w)"
    by (rule setupPageTracking_flag_set)
  have s: "static_isPageTrackingSetup w \<longrightarrow>
        history_pushState (snd (setupPageTracking pf ev doc r w)) = history_pushState w
      \<and> history_replaceState (snd (setupPageTracking pf ev doc r w)) = history_replaceState w
      \<and> popstate_listeners (snd (setupPageTracking pf ev doc r w)) = popstate_listeners w
      \<and> originalPushState (heap (snd (setupPageTracking pf ev doc r w)) r)
          = originalPushState (heap w r)
      \<and> originalReplaceState (heap (snd (setupPageTracking pf ev doc r w)) r)
          = originalReplaceState (heap w r)
      \<and> popstateHandler (heap (snd (setupPageTracking pf ev doc r w)) r)
          = popstateHandler (heap w r)
      \<and> static_isPageTrackingSetup (snd (setupPageTracking pf ev doc r w))"
    using set by (auto simp: trackPageView_world_fields trackPageView_tracker_fields)
  have sr: "static_isPageTrackingSetup w \<longrightarrow>
        history_pushState (snd (on_ready pf ev doc r w)) = history_pushState w
      \<and> history_replaceState (snd (on_ready pf ev doc r w)) = history_replaceState w
      \<and> popstate_listeners (snd (on_ready pf ev doc r w)) = popstate_listeners w"
  proof (cases "isInitialized (heap w r)")
    case True
    then show ?thesis by (simp add: on_ready_def)
  next
    case False
    from on_ready_navigation(1-3) [OF False, of pf ev doc] s show ?thesis by simp
  qed
  have c: "\<not> static_isPageTrackingSetup w \<and> fst (setupPageTracking pf ev doc r w) = None \<longrightarrow>
        history_pushState (snd (setupPageTracking pf ev doc r w)) = Wrapper (next_env w)
      \<and> history_replaceState (snd (setupPageTracking pf ev doc r w)) = Wrapper (next_env w)
      \<and> popstate_listeners (snd (setupPageTracking pf ev doc r w))
          = popstate_listeners w @ [next_env w]
      \<and> originalPushState (heap (snd (setupPageTracking pf ev doc r w)) r)
          = Some (history_pushState w)
      \<and> originalReplaceState (heap (snd (setupPageTracking pf ev doc r w)) r)
          = Some (history_replaceState w)
      \<and> popstateHandler (heap (snd (setupPageTracking pf ev doc r w)) r) = Some (next_env w)
      \<and> static_isPageTrackingSetup (snd (setupPageTracking pf ev doc r w))"
    using setupPageTracking_flag_clear [of w pf ev doc r] by blast
  have cr: "\<not> static_isPageTrackingSetup w \<and> \<not> isInitialized (heap w r)
        \<and> fst (on_ready pf ev doc r w) = None \<longrightarrow>
        history_pushState (snd (on_ready pf ev doc r w)) = Wrapper (next_env w)
      \<and> history_replaceState (snd (on_ready pf ev doc r w)) = Wrapper (next_env w)
      \<and> popstate_listeners (snd (on_ready pf ev doc r w)) = popstate_listeners w @ [next_env w]
      \<and> originalPushState (heap (snd (on_ready pf ev doc r w)) r) = Some (history_pushState w)
      \<and> originalReplaceState (heap (snd (on_ready pf ev doc r w)) r)
          = Some (history_replaceState w)
      \<and> popstateHandler (heap (snd (on_ready pf ev doc r w)) r) = Some (next_env w)
      \<and> static_isPageTrackingSetup (snd (on_ready pf ev doc r w))"
  proof (intro impI, elim conjE)
    assume a: "\<not> static_isPageTrackingSetup w" "\<not> isInitialized (heap w r)"
      "fst (on_ready pf ev doc r w) = None"
    note n = on_ready_navigation [OF a(2), of pf ev doc]
    from a(3) have "fst (setupPageTracking pf ev doc r w) = None"
      by (simp add: n(8))
    with a(1) c show "history_pushState (snd (on_ready pf ev doc r w)) = Wrapper (next_env w)
      \<and> history_replaceState (snd (on_ready pf ev doc r w)) = Wrapper (next_env w)
      \<and> popstate_listeners (snd (on_ready pf ev doc r w)) = popstate_listeners w @ [next_env w]
      \<and> originalPushState (heap (snd (on_ready pf ev doc r w)) r) = Some (history_pushState w)
      \<and> originalReplaceState (heap (snd (on_ready pf ev doc r w)) r)
          = Some (history_replaceState w)
      \<and> popstateHandler (heap (snd (on_ready pf ev doc r w)) r) = Some (next_env w)
      \<and> static_isPageTrackingSetup (snd (on_ready pf ev doc r w))"
      by (simp add: n(1-7))
  qed
  from d g s sr c cr show ?thesis
    by blast
qed

theorem page_tracking_flag_witness:
  "\<not> static_isPageTrackingSetup (snd (destroy 0 started_world))
   \<and> history_pushState (snd (destroy 0 started_world)) = Native
   \<and> popstate_listeners (snd (destroy 0 started_world)) = []
   \<and> \<not> static_isPageTrackingSetup (snd (destroy 1 reinitialized_world))
   \<and> history_pushState (snd (destroy 1 reinitialized_world)) = Wrapper 1
   \<and> popstate_listeners (snd (destroy 1 reinitialized_world)) = [1]
   \<and> history_pushState
         (snd (setupPageTracking example_platform example_env example_document 0
                 restarted_world))
       = Wrapper 1
   \<and> history_pushState
         (snd (on_ready example_platform example_env example_document 0 destroyed_world))
       = Wrapper 1
   \<and> popstate_listeners
         (snd (on_ready example_platform example_env example_document 0 destroyed_world))
       = [1]
   \<and> originalPushState
         (heap (snd (setupPageTracking example_platform example_env example_document 1
                       unhooked_world)) 1)
       = Some (Wrapper 1)
   \<and> history_pushState
         (snd (setupPageTracking example_platform example_env example_document 1
                 unhooked_world))
       = Wrapper 2"
proof -
  have ok: "fst (on_ready example_platform example_env example_document 0 destroyed_world)
              = None"
    by (rule on_ready_succeeds) (simp add: destroyed_world_eq example_platform_def)
  have ok2: "fst (setupPageTracking example_platform example_env example_document 1
                    unhooked_world) = None"
    by (simp add: setupPageTracking_error unhooked_world_eq example_platform_def)
  have f: "\<not> static_isPageTrackingSetup destroyed_world" "next_env destroyed_world = 1"
    "\<not> isInitialized (heap destroyed_world 0)" "popstate_listeners destroyed_world = []"
    by (simp_all add: destroyed_world_eq)
  have g: "static_isPageTrackingSetup restarted_world"
    "history_pushState restarted_world = Wrapper 1"
    by (simp_all add: restarted_world_fields)
  have h: "originalPushState (heap started_world 0) = Some Native"
    "popstateHandler (heap started_world 0) = Some 0" "popstate_listeners started_world = [0]"
    by (simp_all add: started_world_fields)
  have i: "originalPushState (heap reinitialized_world 1) = None"
    "popstateHandler (heap reinitialized_world 1) = None"
    "history_pushState reinitialized_world = Wrapper 1"
    "popstate_listeners reinitialized_world = [1]"
    by (simp_all add: reinitialized_world_eq new_tracker_def)
  have j: "\<not> static_isPageTrackingSetup unhooked_world" "next_env unhooked_world = 2"
    "history_pushState unhooked_world = Wrapper 1"
    by (simp_all add: unhooked_world_eq)
  from ok ok2 f g h i j
    page_tracking_flag [where this = 0 and w = started_world and r = 0
      and pf = example_platform and ev = example_env and doc = example_document]
    page_tracking_flag [where this = 1 and w = reinitialized_world and r = 0
      and pf = example_platform and ev = example_env and doc = example_document]
    page_tracking_flag [where this = 0 and w = restarted_world and r = 0
      and pf = example_platform and ev = example_env and doc = example_document]
    page_tracking_flag [where this = 0 and w = destroyed_world and r = 0
      and pf = example_platform and ev = example_env and doc = example_document]
    page_tracking_flag [where this = 0 and w = unhooked_world and r = 1
      and pf = example_platform and ev = example_env and doc = example_document]
  show ?thesis
    by simp
qed

section \<open>Reachable states\<close>

lemma registry_same_refl: "registry_same w w"
  by (simp add: registry_same_def)

lemma registry_same_trans:
  "registry_same w w' \<Longrightarrow> registry_same w' w'' \<Longrightarrow> registry_same w w''"
  by (simp add: registry_same_def)

lemma world_inv_same: "world_inv w \<Longrightarrow> registry_same w w' \<Longrightarrow> world_inv w'"
  by (simp add: world_inv_def registry_inv_def registry_same_def tracking_inv_def
        listeners_of_def)

lemma client_call_same: "registry_same w (client_call this c w)"
  by (simp add: registry_same_def client_call_def)

lemma trackPageView_same: "registry_same w (snd (trackPageView pf ev doc this url source w))"
  by (simp add: trackPageView_def client_call_same registry_same_refl split: option.splits)

lemma initialize_same: "registry_same w (snd (snd (initialize ev this w)))"
  by (simp add: initialize_def registry_same_def client_call_def)

lemma trackingEvent_same: "registry_same w (snd (trackingEvent pf ev doc this element w))"
  by (simp add: trackingEvent_def Let_def client_call_same registry_same_refl
        split: option.splits)

lemma fold_same_relation:
  assumes "\<And>x s. registry_same s (f x s)"
  shows "registry_same w (fold f xs w)"
proof (induction xs arbitrary: w)
  case Nil
  show ?case by (simp add: registry_same_refl)
next
  case (Cons x xs)
  have "registry_same w (f x w)" by (rule assms)
  moreover have "registry_same (f x w) (fold f xs (f x w))" by (rule Cons.IH)
  ultimately show ?case
    using registry_same_trans by fastforce
qed

lemma click_same: "registry_same w (click pf ev doc element w)"
  unfolding click_def by (rule fold_same_relation) (rule trackingEvent_same)

lemma on_navigation_same: "registry_same w (on_navigation c s w)"
  by (simp add: on_navigation_def Let_def registry_same_def)

lemma popstate_event_same: "registry_same w (popstate_event href w)"
proof -
  have "registry_same (w\<lparr>location_href := href\<rparr>)
          (fold (\<lambda>c. on_navigation c ''popstate'') (popstate_listeners w)
             (w\<lparr>location_href := href\<rparr>))"
    by (rule fold_same_relation) (rule on_navigation_same)
  then show ?thesis
    by (simp add: popstate_event_def registry_same_def)
qed

lemma fire_timer_same: "registry_same w (fire_timer pf ev doc t w)"
proof -
  obtain e w1 where tp:
    "trackPageView pf ev doc (owner (envs w (t_env t))) (t_url t) (t_source t) w = (e, w1)"
    by (cases "trackPageView pf ev doc (owner (envs w (t_env t))) (t_url t) (t_source t) w")
  have "registry_same w w1"
    using trackPageView_same [of w pf ev doc "owner (envs w (t_env t))" "t_url t" "t_source t"]
    by (simp add: tp)
  then show ?thesis
    by (cases e) (simp_all add: fire_timer_def tp registry_same_def)
qed

lemma advance_same: "registry_same w (advance pf ev doc dt w)"
proof -
  let ?w0 = "w\<lparr>now := now w + dt,
               timers := filter (\<lambda>x. \<not> due x \<le> now w + dt) (timers w)\<rparr>"
  have "registry_same ?w0
          (fold (fire_timer pf ev doc) (filter (\<lambda>x. due x \<le> now w + dt) (timers w)) ?w0)"
    by (rule fold_same_relation) (rule fire_timer_same)
  then show ?thesis
    by (simp add: advance_def Let_def registry_same_def)
qed

lemma call_history_same:
  "call_history sl f href w = Some y \<Longrightarrow> registry_same w (snd y)"
proof (induction sl f href w y rule: call_history.raw_induct [rotated 1, consumes 1])
  case (1 call_history sl f href w y)
  show ?case
  proof (cases f)
    case Native
    with 1(2) show ?thesis by (auto simp: registry_same_def)
  next
    case (Wrapper c)
    show ?thesis
    proof (cases "saved_original sl (heap w (owner (envs w c)))")
      case None
      with 1(2) Wrapper show ?thesis by (auto simp: registry_same_def)
    next
      case (Some original)
      with 1(2) Wrapper obtain r where r: "call_history sl original href w = Some r"
        and y: "(case r of (Some e, w1) \<Rightarrow> Some (Some e, w1)
                 | (None, w1) \<Rightarrow> Some (None, on_navigation c (source_tag sl) w1)) = Some y"
        by (auto simp: bind_eq_Some_conv)
      have "registry_same w (snd r)" using r by (rule 1(1))
      moreover have "registry_same (snd r) (snd y)"
        using y on_navigation_same [of "snd r" c "source_tag sl"]
        by (cases r) (auto simp: registry_same_refl split: option.splits)
      ultimately show ?thesis by (rule registry_same_trans)
    qed
  qed
qed

lemma history_call_same: "history_call sl href w = Some (e, w') \<Longrightarrow> registry_same w w'"
  using call_history_same [of sl _ href w "(e, w')"] by (simp add: history_call_def)


lemma attach_element_registry:
  "registry_inv w \<and> this < next_addr w \<Longrightarrow>
   registry_inv (attach_element this e w) \<and> this < next_addr (attach_element this e w)"
  by (auto simp: registry_inv_def attach_element_def set_tracker_def)

lemma attachTrackingToElements_registry:
  "registry_inv w \<and> this < next_addr w \<Longrightarrow>
   registry_inv (attachTrackingToElements this es w)
   \<and> this < next_addr (attachTrackingToElements this es w)"
  unfolding attachTrackingToElements_def
proof (induction es arbitrary: w)
  case Nil
  then show ?case by simp
next
  case (Cons e es)
  from Cons.prems have "registry_inv (attach_element this e w)
      \<and> this < next_addr (attach_element this e w)"
    by (rule attach_element_registry)
  then show ?case using Cons.IH by simp
qed

lemma attach_single_registry:
  "registry_inv w \<and> this < next_addr w \<Longrightarrow>
   registry_inv (snd (attach_single pf this e w))
   \<and> this < next_addr (snd (attach_single pf this e w))"
  using attachTrackingToElements_registry [of w this]
  by (simp add: attach_single_def split: option.splits)

lemma on_added_node_registry:
  assumes "registry_inv w \<and> this < next_addr w"
  shows "registry_inv (snd (on_added_node pf doc this n w))
         \<and> this < next_addr (snd (on_added_node pf doc this n w))"
proof (cases n)
  case OtherNode
  with assms show ?thesis by (simp add: on_added_node_def)
next
  case (Element el)
  have a: "registry_inv (snd (attach_single pf this el w))
           \<and> this < next_addr (snd (attach_single pf this el w))"
    using assms by (rule attach_single_registry)
  show ?thesis
    using assms a Element attachTrackingToElements_registry [of _ this]
    by (cases "attach_single pf this el w")
       (auto simp: on_added_node_def Let_def split: option.splits)
qed

lemma on_mutation_registry:
  assumes "registry_inv w \<and> this < next_addr w"
  shows "registry_inv (snd (on_mutation pf doc this m w))
         \<and> this < next_addr (snd (on_mutation pf doc this m w))"
proof -
  let ?Q = "\<lambda>v. registry_inv v \<and> this < next_addr v"
  let ?first = "if m_type m = ChildList
                then forEach (on_added_node pf doc this) (addedNodes m) w else (None, w)"
  have f: "?Q (snd ?first)"
    using assms forEach_inv [of ?Q "on_added_node pf doc this" w "addedNodes m"]
      on_added_node_registry [of _ this pf doc]
    by simp
  obtain e1 w1 where first: "?first = (e1, w1)" by (cases ?first)
  with f have w1: "?Q w1" by simp
  have "?Q (snd (attach_single pf this (target m) w1))"
    using w1 by (rule attach_single_registry)
  with w1 first show ?thesis
    unfolding on_mutation_def by (cases e1) (simp_all del: forEach.simps)
qed

lemma observer_callback_registry:
  assumes "registry_inv w \<and> this < next_addr w"
  shows "registry_inv (snd (observer_callback pf doc this ms w))"
proof -
  let ?Q = "\<lambda>v. registry_inv v \<and> this < next_addr v"
  have "?Q w \<Longrightarrow> ?Q (snd (forEach (on_mutation pf doc this) ms w))"
    by (rule forEach_inv [of ?Q]) (rule on_mutation_registry)
  with assms show ?thesis by (simp add: observer_callback_def)
qed

lemma setupObserver_registry:
  assumes "registry_inv w \<and> this < next_addr w"
  shows "registry_inv (setupObserver doc this w)"
proof -
  have "registry_inv (attachTrackingToElements this (querySelectorAll_document doc) w)"
    using assms attachTrackingToElements_registry [of w this] by simp
  then show ?thesis
    by (auto simp: setupObserver_def Let_def set_tracker_def registry_inv_def less_Suc_eq)
qed

lemma setupPageTracking_fields:
  "click_listeners (snd (setupPageTracking pf ev doc this w)) = click_listeners w"
  "trackedElements (heap (snd (setupPageTracking pf ev doc this w)) r)
     = trackedElements (heap w r)"
  "next_addr (snd (setupPageTracking pf ev doc this w)) = next_addr w"
  "observing (snd (setupPageTracking pf ev doc this w)) = observing w"
  "next_observer (snd (setupPageTracking pf ev doc this w)) = next_observer w"
  "isInitialized (heap (snd (setupPageTracking pf ev doc this w)) r) = isInitialized (heap w r)"
  using trackPageView_world_fields [of pf ev doc this "location_href w" "''initial_load''" w]
    trackPageView_tracker_fields [of pf ev doc this "location_href w" "''initial_load''" w r]
  by (cases "trackPageView pf ev doc this (location_href w) ''initial_load'' w";
      auto simp: setupPageTracking_def Let_def set_tracker_def split: option.splits)+

lemma setupPageTracking_popstate:
  "(popstate_listeners (snd (setupPageTracking pf ev doc this w)) = popstate_listeners w
      \<and> next_env (snd (setupPageTracking pf ev doc this w)) = next_env w)
   \<or> (popstate_listeners (snd (setupPageTracking pf ev doc this w))
        = popstate_listeners w @ [next_env w]
      \<and> next_env (snd (setupPageTracking pf ev doc this w)) = Suc (next_env w))"
  using trackPageView_world_fields [of pf ev doc this "location_href w" "''initial_load''" w]
  by (cases "trackPageView pf ev doc this (location_href w) ''initial_load'' w")
     (auto simp: setupPageTracking_def Let_def set_tracker_def split: option.splits)

lemma setupPageTracking_registry:
  assumes "registry_inv w"
  shows "registry_inv (snd (setupPageTracking pf ev doc this w))"
  using assms setupPageTracking_popstate [of pf ev doc this w]
  by (auto simp: registry_inv_def setupPageTracking_fields less_Suc_eq)

lemma setupPageTracking_inv:
  "tracking_inv r w \<Longrightarrow> tracking_inv r (snd (setupPageTracking pf ev doc this w))"
  using tracking_inv_frame [of "snd (setupPageTracking pf ev doc this w)" w r]
  by (simp add: setupPageTracking_fields)

lemma on_ready_world_inv:
  assumes "world_inv w" "this < next_addr w"
  shows "world_inv (snd (on_ready pf ev doc this w))"
proof (cases "isInitialized (heap w this)")
  case True
  with assms show ?thesis by (simp add: on_ready_def)
next
  case False
  obtain e w1 where sp: "setupPageTracking pf ev doc this w = (e, w1)"
    by (cases "setupPageTracking pf ev doc this w")
  have w1: "world_inv w1" "this < next_addr w1"
    using assms setupPageTracking_registry [of w pf ev doc this]
      setupPageTracking_inv [of _ w pf ev doc this]
      setupPageTracking_fields(3) [of pf ev doc this w]
    by (simp_all add: sp world_inv_def)
  let ?w2 = "setupObserver doc this w1"
  have w2: "world_inv ?w2"
    using w1 setupObserver_registry [of w1 this doc] setupObserver_inv [of _ w1 doc this]
    by (simp add: world_inv_def)
  have "registry_same ?w2 (set_tracker this ((heap ?w2 this)\<lparr>isInitialized := True\<rparr>) ?w2)"
    by (simp add: registry_same_def set_tracker_def)
  with w2 have "world_inv (set_tracker this ((heap ?w2 this)\<lparr>isInitialized := True\<rparr>) ?w2)"
    by (rule world_inv_same)
  with w1 False show ?thesis
    by (cases e) (simp_all add: on_ready_def sp Let_def)
qed

lemma observer_callback_world_inv:
  assumes "world_inv w" "this < next_addr w"
  shows "world_inv (snd (observer_callback pf doc this ms w))"
  using assms observer_callback_registry [of w this pf doc ms]
    observer_callback_inv [of _ w pf doc this ms]
  by (simp add: world_inv_def)

lemma set_fold_remove1: "set (fold (\<lambda>e. remove1 (e, this)) es ls) \<subseteq> set ls"
proof (induction es arbitrary: ls)
  case Nil
  show ?case by simp
next
  case (Cons e es)
  have "set (fold (\<lambda>e. remove1 (e, this)) es (remove1 (e, this) ls))
        \<subseteq> set (remove1 (e, this) ls)"
    by (rule Cons.IH)
  also have "\<dots> \<subseteq> set ls" by (rule set_remove1_subset)
  finally show ?case by simp
qed

lemma destroy_registry:
  assumes "registry_inv w"
  shows "registry_inv (snd (destroy this w))"
proof -
  have sub: "set (click_listeners (snd (destroy this w))) \<subseteq> set (click_listeners w)"
    by (simp add: destroy_world_fields set_fold_remove1)
  have "\<forall>l \<in> set (click_listeners (snd (destroy this w))). snd l < next_addr w"
    using assms sub by (auto simp: registry_inv_def)
  moreover have "distinct (observing (snd (destroy this w)))"
      "\<forall>ob \<in> set (observing (snd (destroy this w))). ob < next_observer w"
      "distinct (popstate_listeners (snd (destroy this w)))"
      "\<forall>c \<in> set (popstate_listeners (snd (destroy this w))). c < next_env w"
    using assms
    by (auto simp: registry_inv_def destroy_world_fields split: option.splits
          dest: notin_set_remove1)
  ultimately show ?thesis
    by (simp add: registry_inv_def destroy_world_fields)
qed

lemma destroy_world_inv: "world_inv w \<Longrightarrow> world_inv (snd (destroy this w))"
  using destroy_registry [of w this] destroy_inv [of _ w this]
  by (simp add: world_inv_def)

lemma getInstance_world_inv:
  assumes "world_inv w"
  shows "world_inv (snd (getInstance w))"
proof (cases "static_instance w")
  case (Some this)
  with assms show ?thesis by (simp add: getInstance_def)
next
  case None
  let ?w' = "snd (getInstance w)"
  have f: "click_listeners ?w' = click_listeners w" "next_addr ?w' = Suc (next_addr w)"
      "heap ?w' = (heap w)(next_addr w := new_tracker)"
      "observing ?w' = observing w" "next_observer ?w' = next_observer w"
      "popstate_listeners ?w' = popstate_listeners w" "next_env ?w' = next_env w"
    using None by (simp_all add: getInstance_def Let_def set_tracker_def)
  have reg: "registry_inv ?w'"
    using assms by (auto simp: world_inv_def registry_inv_def f less_Suc_eq)
  have "tracking_inv r ?w'" for r
  proof (cases "r = next_addr w")
    case True
    have "filter (\<lambda>l. snd l = next_addr w) (click_listeners w) = []"
      using assms by (auto simp: world_inv_def registry_inv_def filter_empty_conv)
    with True show ?thesis
      by (simp add: tracking_inv_def listeners_of_def f new_tracker_def)
  next
    case False
    with assms show ?thesis
      by (simp add: world_inv_def tracking_inv_def listeners_of_def f)
  qed
  with reg show ?thesis by (simp add: world_inv_def)
qed

lemma initial_world_inv: "world_inv (initial_world href)"
  by (simp add: world_inv_def registry_inv_def tracking_inv_def listeners_of_def
        initial_world_def new_tracker_def)

lemma reachable_invariant: "reachable pf ev w \<Longrightarrow> world_inv w"
proof (induction rule: reachable.induct)
  case (page_load href)
  show ?case by (rule initial_world_inv)
next
  case (get_instance w)
  then show ?case by (simp add: getInstance_world_inv)
next
  case (call_initialize w this)
  then show ?case using initialize_same [of w ev this] by (blast intro: world_inv_same)
next
  case (client_ready w this doc)
  then show ?case by (simp add: on_ready_world_inv)
next
  case (mutations w this doc ms)
  then show ?case by (simp add: observer_callback_world_inv)
next
  case (user_click w doc element)
  then show ?case using click_same [of w pf ev doc element] by (blast intro: world_inv_same)
next
  case (history_navigation w sl href e w')
  then show ?case using history_call_same [of sl href w e w'] by (blast intro: world_inv_same)
next
  case (back_forward w href)
  then show ?case using popstate_event_same [of w href] by (blast intro: world_inv_same)
next
  case (time_passes w doc dt)
  then show ?case using advance_same [of w pf ev doc dt] by (blast intro: world_inv_same)
next
  case (call_destroy w this)
  then show ?case by (simp add: destroy_world_inv)
qed

text \<open>
  In every reachable state, every tracker satisfies the click-listener invariant, no
  observer and no popstate handler is registered twice, and every click listener belongs
  to an allocated tracker. These are the hypotheses of the teardown theorem.
\<close>

theorem reachable_world_inv:
  "reachable pf ev w \<Longrightarrow> world_inv w"
  by (rule reachable_invariant)

theorem reachable_world_inv_witness:
  "reachable example_platform example_env started_world \<and> world_inv started_world"
proof -
  have "reachable example_platform example_env
          (initial_world ''https://example.com/search'' :: (nat, unit) world)"
    by (rule reachable.page_load)
  then have "reachable example_platform example_env fresh_world"
    unfolding fresh_world_def by (rule reachable.get_instance)
  moreover have "0 < next_addr fresh_world"
    by (simp add: fresh_world_def getInstance_def initial_world_def Let_def set_tracker_def)
  ultimately have "reachable example_platform example_env
          (snd (snd (initialize example_env 0 fresh_world)))"
    by (rule reachable.call_initialize)
  moreover have "0 < next_addr (snd (snd (initialize example_env 0 fresh_world)))"
    by (simp add: initialize_def client_call_def fresh_world_def getInstance_def
          initial_world_def Let_def set_tracker_def)
  ultimately have "reachable example_platform example_env
          (snd (on_ready example_platform example_env example_document 0
                  (snd (snd (initialize example_env 0 fresh_world)))))"
    by (rule reachable.client_ready)
  then have r: "reachable example_platform example_env started_world"
    by (simp add: first_call_ready)
  from r reachable_world_inv [OF r] show ?thesis by simp
qed

text \<open>
  The example states are reachable: \<open>rudderstackTracking()\<close> is \<open>getInstance\<close>,
  \<open>initialize\<close> and the callback of \<open>ready\<close>, each on an allocated tracker.
\<close>

lemma reachable_rudderstackTracking:
  assumes r: "reachable pf ev w"
    and a: "fst (getInstance w) < next_addr (snd (getInstance w))"
  shows "reachable pf ev (snd (snd (rudderstackTracking pf ev doc w)))"
proof -
  let ?t = "fst (getInstance w)"
  let ?w1 = "snd (getInstance w)"
  let ?w2 = "snd (snd (initialize ev ?t ?w1))"
  let ?w3 = "snd (on_ready pf ev doc ?t ?w2)"
  have r1: "reachable pf ev ?w1"
    using r by (rule reachable.get_instance)
  then have r2: "reachable pf ev ?w2"
    using a by (rule reachable.call_initialize)
  have "next_addr ?w2 = next_addr ?w1"
    by (simp add: initialize_def client_call_def)
  with a have "?t < next_addr ?w2" by simp
  with r2 have r3: "reachable pf ev ?w3"
    by (rule reachable.client_ready)
  have "snd (snd (rudderstackTracking pf ev doc w)) = ?w2
        \<or> snd (snd (rudderstackTracking pf ev doc w)) = ?w3"
    by (cases "getInstance w"; cases "on_ready pf ev doc ?t ?w2")
       (auto simp: rudderstackTracking_def initialize_def split: option.splits)
  with r2 r3 show ?thesis by auto
qed

lemma started_world_reachable: "reachable example_platform example_env started_world"
  unfolding started_world_def
  by (rule reachable_rudderstackTracking, rule reachable.page_load)
     (simp add: getInstance_def initial_world_def Let_def set_tracker_def)

lemma destroyed_world_reachable: "reachable example_platform example_env destroyed_world"
  unfolding destroyed_world_def
  by (rule reachable.call_destroy, rule started_world_reachable)
     (simp add: started_world_fields)

lemma restarted_world_reachable: "reachable example_platform example_env restarted_world"
  unfolding restarted_world_def
  by (rule reachable_rudderstackTracking, rule destroyed_world_reachable)
     (simp add: getInstance_def destroyed_world_eq Let_def set_tracker_def)

lemma stale_world_reachable: "reachable example_platform example_env stale_world"
  unfolding stale_world_def
  by (rule reachable.call_destroy, rule restarted_world_reachable)
     (simp add: restarted_world_eq)

lemma stacked_world_reachable: "reachable example_platform example_env stacked_world"
  unfolding stacked_world_def
  by (rule reachable_rudderstackTracking, rule stale_world_reachable)
     (simp add: getInstance_def stale_world_eq Let_def set_tracker_def)





lemma length_filter_fst:
  "length (filter (\<lambda>l. fst l = e) ls) = count_list (map fst ls) e"
  by (induction ls) auto

lemma single_tracker_bound:
  assumes "tracking_inv r w" "\<forall>l \<in> set (click_listeners w). snd l = r"
  shows "length (filter (\<lambda>l. fst l = e) (click_listeners w)) \<le> 1"
proof -
  have "filter (\<lambda>l. snd l = r) (click_listeners w) = click_listeners w"
    using assms(2) by (simp add: filter_id_conv)
  then have "distinct (map fst (click_listeners w))"
    using assms(1) by (simp add: tracking_inv_def listeners_of_def)
  then show ?thesis
    using distinct_count_le_1 [of "map fst (click_listeners w)" e]
    by (simp add: length_filter_fst)
qed

text \<open>
  Claim C3, as the specification states it, fails when two trackers hold listeners. In the
  example the page has been started, destroyed and started again, and the \<open>destroy\<close>
  handed out by the first start is called once more: it clears the singleton reference
  while the second tracker keeps its listeners, and each tracked element has one click
  listener. The next \<open>rudderstackTracking()\<close> creates a third tracker, whose
  membership set is empty, so its scan of the document attaches a listener to each
  element: element 1, which carries the attribute, now has two click listeners, that of the
  second and that of the third tracker.
\<close>

theorem click_listener_per_tracker_counterexample:
  "reachable example_platform example_env stale_world
   \<and> filter (\<lambda>l. fst l = 1) (click_listeners stale_world) = [(1, 1)]
   \<and> filter (\<lambda>l. fst l = 2) (click_listeners stale_world) = [(2, 1)]
   \<and> filter (\<lambda>l. fst l = 3) (click_listeners stale_world) = [(3, 1)]
   \<and> stacked_world
       = snd (snd (rudderstackTracking example_platform example_env example_document
                     stale_world))
   \<and> reachable example_platform example_env stacked_world
   \<and> hasAttribute_id example_document 1
   \<and> filter (\<lambda>l. fst l = 1) (click_listeners stacked_world) = [(1, 1), (1, 2)]
   \<and> length (filter (\<lambda>l. fst l = 1) (click_listeners stacked_world)) = 2
   \<and> trackedElements (heap stacked_world 1) = [1, 2, 3]
   \<and> trackedElements (heap stacked_world 2) = [1, 2, 3]"
proof -
  have "click_listeners stale_world = [(1, 1), (2, 1), (3, 1)]"
    "click_listeners stacked_world = [(1, 1), (2, 1), (3, 1), (1, 2), (2, 2), (3, 2)]"
    "trackedElements (heap stacked_world 1) = [1, 2, 3]"
    "trackedElements (heap stacked_world 2) = [1, 2, 3]"
    "hasAttribute_id example_document 1"
    by (simp_all add: stale_world_eq stacked_world_eq example_document_def)
  with stale_world_reachable stacked_world_reachable show ?thesis
    by (simp add: stacked_world_def)
qed

text \<open>
  Claim C3, amended: the bound is one click listener for each tracker. The click handler of
  a tracker is registered on exactly the elements of its membership set, once on each.
  This holds of every tracker when the module is loaded; the scan of the elements (in
  \<open>setupObserver\<close> and in every \<open>attachTrackingToElements\<close>), every mutation
  record and every batch of them (added nodes and attribute changes alike) and
  \<open>destroy\<close>, run by any tracker, preserve it; and it holds in every reachable state.
  So no element ever has more than one click listener of one tracker, and as long as all
  click listeners are those of one tracker, no element has more than one click listener.
  Attaching to an element that is in the membership set of the attaching tracker changes
  nothing.
\<close>

theorem click_listener_invariant:
  "(tracking_inv r w \<longrightarrow>
       tracking_inv r (attachTrackingToElements this elements w)
     \<and> tracking_inv r (setupObserver doc this w)
     \<and> tracking_inv r (snd (on_mutation pf doc this m w))
     \<and> tracking_inv r (snd (observer_callback pf doc this mutations w))
     \<and> tracking_inv r (snd (destroy this w))
     \<and> count_list (listeners_of r w) element \<le> 1
     \<and> ((\<forall>l \<in> set (click_listeners w). snd l = r) \<longrightarrow>
          length (filter (\<lambda>l. fst l = element) (click_listeners w)) \<le> 1))
   \<and> (element \<in> set (trackedElements (heap w this)) \<longrightarrow>
        attachTrackingToElements this [element] w = w)
   \<and> tracking_inv r (initial_world href :: ('e, 'a) world)
   \<and> (reachable pf ev w \<longrightarrow> tracking_inv r w)"
proof -
  have count: "count_list (listeners_of r w) element \<le> 1" if "tracking_inv r w"
    using that distinct_count_le_1 [of "trackedElements (heap w r)" element]
    by (simp add: tracking_inv_def)
  have init: "tracking_inv r (initial_world href :: ('e, 'a) world)"
    by (simp add: tracking_inv_def listeners_of_def initial_world_def new_tracker_def)
  have reach: "tracking_inv r w" if "reachable pf ev w"
    using reachable_invariant [OF that] by (simp add: world_inv_def)
  from count init reach single_tracker_bound [of r w element] show ?thesis
    by (simp add: attachTrackingToElements_inv setupObserver_inv on_mutation_inv
          observer_callback_inv destroy_inv attach_member_noop)
qed

theorem click_listener_invariant_witness:
  "reachable example_platform example_env started_world
   \<and> tracking_inv 0 started_world
   \<and> tracking_inv 0 (attachTrackingToElements 0 [3, 4] started_world)
   \<and> tracking_inv 0 (snd (destroy 0 started_world))
   \<and> count_list (listeners_of 0 started_world) 1 \<le> 1
   \<and> length (filter (\<lambda>l. fst l = 1) (click_listeners started_world)) \<le> 1
   \<and> attachTrackingToElements 0 [1] started_world = started_world"
proof -
  have r: "reachable example_platform example_env started_world"
    by (rule started_world_reachable)
  have mem: "1 \<in> set (trackedElements (heap started_world 0))"
    by (simp add: started_world_fields)
  have one: "\<forall>l \<in> set (click_listeners started_world). snd l = 0"
    by (simp add: started_world_fields)
  from r mem one click_listener_invariant [where r = 0 and w = started_world and this = 0
      and elements = "[3, 4]" and element = 1 and doc = example_document
      and pf = example_platform and ev = example_env
      and m = "\<lparr>m_type = Attributes, addedNodes = [], attributeName = None, target = 3\<rparr>"
      and mutations = "[]" and href = "[]"]
  show ?thesis
    by blast
qed

text \<open>
  The mutation callback builds a node list from a single element with the expression
  \<open>NodeList.prototype.constructor.call(...)\<close>. When that expression raises, a batch whose
  first record adds an element carrying the tracking attribute ends there with the
  \<open>TypeError\<close>: nothing is attached, and the rest of the batch is not looked at. When it
  yields the list of that one element, the element is attached.
\<close>

theorem added_element_node_list:
  "hasAttribute_id doc element \<Longrightarrow>
     (NodeList_of pf element = None \<longrightarrow>
        observer_callback pf doc this
          (\<lparr>m_type = ChildList, addedNodes = Element element # nodes,
            attributeName = None, target = t\<rparr> # ms) w
        = (Some TypeError, w))
   \<and> (NodeList_of pf element = Some [element] \<and> querySelectorAll_element doc element = [] \<longrightarrow>
        observer_callback pf doc this
          [\<lparr>m_type = ChildList, addedNodes = [Element element],
            attributeName = None, target = t\<rparr>] w
        = (None, attach_element this element w))"
  by (simp add: observer_callback_def on_mutation_def on_added_node_def attach_single_def
        attachTrackingToElements_def)

theorem added_element_node_list_witness:
  "observer_callback example_platform example_document 0
     [\<lparr>m_type = ChildList, addedNodes = [Element 4], attributeName = None, target = 0\<rparr>]
     started_world
   = (Some TypeError, started_world)"
  using added_element_node_list [of example_document 4 example_platform 0 "[]" 0 "[]"
          started_world]
  by (simp add: example_document_def example_platform_def)

section \<open>Navigation and the debounce gate\<close>








lemma page_calls_frame: "heap w' = heap w \<Longrightarrow> page_calls w' r = page_calls w r"
  by (simp add: page_calls_def)











end
